theory Spec2Isabelle
  imports Complex_Main "HOL-Library.Option_ord" "HOL-Library.Multiset"
begin

section \<open>JavaScript values\<close>

text \<open>
  A JavaScript string is modelled as a \<^typ>\<open>string\<close> whose characters are the UTF-16 code
  units below 256 (the Latin-1 range, which holds every literal of the sources). A JavaScript
  number is modelled as an exact \<^typ>\<open>real\<close>; rounding errors of IEEE doubles, \<open>NaN\<close>
  and the infinities are outside the model.
\<close>

subsection \<open>Dynamically typed values\<close>

text \<open>
  The values of type \<open>any\<close> that cross the program (tool arguments, tool data, the parsed
  reply of the model, configuration flags read from the store). An object keeps its
  properties in the order of \<open>Object.entries\<close>. \<open>undefined\<close> is the absence of a value:
  \<open>None\<close> in a \<^typ>\<open>'a option\<close>.
\<close>

datatype json =
    JNull
  | JBool bool
  | JNum real
  | JStr string
  | JArr "json list"
  | JObj "(string \<times> json) list"

text \<open>\<open>ToBoolean\<close>, the test of \<open>if (v)\<close>, \<open>!v\<close> and \<open>v || w\<close>.\<close>

fun truthy :: "json \<Rightarrow> bool" where
  "truthy JNull = False"
| "truthy (JBool b) = b"
| "truthy (JNum n) = (n \<noteq> 0)"
| "truthy (JStr s) = (s \<noteq> [])"
| "truthy (JArr xs) = True"
| "truthy (JObj kvs) = True"

definition truthy_opt :: "json option \<Rightarrow> bool" where
  "truthy_opt v = (case v of None \<Rightarrow> False | Some w \<Rightarrow> truthy w)"

text \<open>Truthiness of a property declared as a string: present and not empty.\<close>

definition truthy_str :: "string option \<Rightarrow> bool" where
  "truthy_str v = (case v of None \<Rightarrow> False | Some w \<Rightarrow> w \<noteq> [])"

text \<open>Property access \<open>v.k\<close> and \<open>v?.k\<close> on a value that is not \<open>null\<close>.\<close>

fun get_prop :: "string \<Rightarrow> json \<Rightarrow> json option" where
  "get_prop k (JObj kvs) = map_of kvs k"
| "get_prop k v = None"

definition prop_opt :: "string \<Rightarrow> json option \<Rightarrow> json option" where
  "prop_opt k v = (case v of None \<Rightarrow> None | Some w \<Rightarrow> get_prop k w)"

text \<open>Characters of the Latin-1 range used by the literals of the sources.\<close>

definition a_acute :: string where "a_acute = [CHR 0xE1]"
definition e_acute :: string where "e_acute = [CHR 0xE9]"
definition i_acute :: string where "i_acute = [CHR 0xED]"
definition o_acute :: string where "o_acute = [CHR 0xF3]"
definition u_acute :: string where "u_acute = [CHR 0xFA]"
definition n_tilde :: string where "n_tilde = [CHR 0xF1]"
definition inv_question :: string where "inv_question = [CHR 0xBF]"
definition dquote :: string where "dquote = [CHR 0x22]"

subsection \<open>\<open>String.prototype.toLowerCase\<close>\<close>

definition toLowerCase_char :: "char \<Rightarrow> char" where
  "toLowerCase_char c =
     (let n = (of_char c :: nat)
      in if (65 \<le> n \<and> n \<le> 90) \<or> (192 \<le> n \<and> n \<le> 222 \<and> n \<noteq> 215)
         then char_of (n + 32) else c)"

definition toLowerCase :: "string \<Rightarrow> string" where
  "toLowerCase s = map toLowerCase_char s"

subsection \<open>\<open>Number.prototype.toFixed\<close> followed by \<open>parseFloat\<close>\<close>


section \<open>Agent configuration\<close>

text \<open>
  The part of \<open>AgentConfig\<close> the tool registry and the orchestrator read. An optional
  property is an \<open>option\<close>. The \<open>enabled\<close> flags are kept as stored values, since the
  code tests the flag of a core tool for truthiness and the flag of a custom tool with
  \<open>=== true\<close>.
\<close>

record LLMConfig =
  llm_provider :: string
  llm_model :: string

record KnowledgeSource =
  source :: string
  vectorIndex :: "string option"
  apiUrl :: "string option"
  apiKeyEncrypted :: "string option"

record KnowledgeConfig =
  companyInfo :: "KnowledgeSource option"
  products :: "KnowledgeSource option"

record ToolConfig =
  enabled :: "json option"
  tc_type :: "string option"

record CustomTool =
  ct_name :: "string option"
  ct_baseUrl :: "string option"
  ct_path :: "string option"
  ct_method :: "string option"
  ct_apiKeyEncrypted :: "string option"
  ct_enabled :: "json option"
  ct_description :: "string option"
  ct_parameters :: "json option"

record ToolsConfig =
  mode :: "string option"
  cfg_searchProduct :: "ToolConfig option"
  cfg_addToCart :: "ToolConfig option"
  cfg_getOrder :: "ToolConfig option"
  custom :: "CustomTool list option"

record AgentConfig =
  llm :: LLMConfig
  knowledge :: KnowledgeConfig
  tools :: ToolsConfig

text \<open>\<open>agentConfig.tools.X?.enabled\<close> as a condition.\<close>

definition tool_enabled :: "ToolConfig option \<Rightarrow> bool" where
  "tool_enabled tc = (case tc of None \<Rightarrow> False | Some c \<Rightarrow> truthy_opt (enabled c))"

text \<open>\<open>agentConfig.knowledge.X?.source === 'rag'\<close>.\<close>

definition source_is_rag :: "KnowledgeSource option \<Rightarrow> bool" where
  "source_is_rag ks = (case ks of None \<Rightarrow> False | Some k \<Rightarrow> source k = ''rag'')"

section \<open>Tool registry: advertised tools\<close>

record ToolDefinition =
  td_name :: string
  td_description :: string
  td_parameters :: json

definition str_prop :: "string \<Rightarrow> json" where
  "str_prop d = JObj [(''type'', JStr ''string''), (''description'', JStr d)]"

definition num_prop :: "string \<Rightarrow> json" where
  "num_prop d = JObj [(''type'', JStr ''number''), (''description'', JStr d)]"

definition search_product_def :: ToolDefinition where
  "search_product_def =
    \<lparr>td_name = ''search_product'',
     td_description = ''Busca productos en el cat'' @ a_acute @ ''logo por nombre, descripci''
        @ o_acute @ ''n o categor'' @ i_acute @ ''a'',
     td_parameters = JObj
       [(''type'', JStr ''object''),
        (''properties'', JObj
          [(''query'', str_prop (''T'' @ e_acute @ ''rmino de b'' @ u_acute @ ''squeda'')),
           (''limit'', num_prop (''N'' @ u_acute @ ''mero m'' @ a_acute
               @ ''ximo de resultados (default: 10)''))]),
        (''required'', JArr [JStr ''query''])]\<rparr>"

definition add_to_cart_def :: ToolDefinition where
  "add_to_cart_def =
    \<lparr>td_name = ''add_to_cart'',
     td_description = ''Agrega un producto al carrito del usuario'',
     td_parameters = JObj
       [(''type'', JStr ''object''),
        (''properties'', JObj
          [(''productId'', str_prop ''ID del producto a agregar''),
           (''quantity'', num_prop ''Cantidad a agregar (default: 1)'')]),
        (''required'', JArr [JStr ''productId''])]\<rparr>"

definition get_order_def :: ToolDefinition where
  "get_order_def =
    \<lparr>td_name = ''get_order'',
     td_description = ''Obtiene informaci'' @ o_acute @ ''n de una orden. Si no tienes el n''
        @ u_acute @ ''mero de orden, pregunta al usuario por su email, tel'' @ e_acute
        @ ''fono o n'' @ u_acute @ ''mero de orden antes de usar esta herramienta.'',
     td_parameters = JObj
       [(''type'', JStr ''object''),
        (''properties'', JObj
          [(''orderId'', str_prop ''ID de la orden (ObjectId)''),
           (''orderNumber'', str_prop (''N'' @ u_acute @ ''mero de orden (ej: '' @ dquote
               @ ''17405329519752tYdTn9'' @ dquote @ '')'')),
           (''email'', str_prop (''Email del cliente para buscar '' @ o_acute @ ''rdenes'')),
           (''phone'', str_prop (''Tel'' @ e_acute @ ''fono del cliente para buscar ''
               @ o_acute @ ''rdenes''))])]\<rparr>"

definition show_product_def :: ToolDefinition where
  "show_product_def =
    \<lparr>td_name = ''show_product'',
     td_description = ''Muestra detalles de un producto espec'' @ i_acute @ ''fico'',
     td_parameters = JObj
       [(''type'', JStr ''object''),
        (''properties'', JObj [(''productId'', str_prop ''ID del producto'')]),
        (''required'', JArr [JStr ''productId''])]\<rparr>"

definition rag_query_def :: ToolDefinition where
  "rag_query_def =
    \<lparr>td_name = ''rag_query'',
     td_description = ''Consulta informaci'' @ o_acute
        @ ''n usando RAG (Retrieval Augmented Generation)'',
     td_parameters = JObj
       [(''type'', JStr ''object''),
        (''properties'', JObj
          [(''query'', str_prop ''Consulta a realizar''),
           (''source'', JObj
              [(''type'', JStr ''string''),
               (''description'', JStr ''Fuente de conocimiento: companyInfo o products''),
               (''enum'', JArr [JStr ''companyInfo'', JStr ''products''])])]),
        (''required'', JArr [JStr ''query''])]\<rparr>"

text \<open>\<open>const mode = agentConfig.tools.mode || 'default'\<close>.\<close>

definition tools_mode :: "AgentConfig \<Rightarrow> string" where
  "tools_mode cfg =
     (case mode (tools cfg) of
        None \<Rightarrow> ''default''
      | Some m \<Rightarrow> if m = [] then ''default'' else m)"

text \<open>
  The first block of \<open>getToolDefinitions\<close>: the definitions pushed under
  \<open>if (mode === 'default' || mode === 'hybrid')\<close>, in the order of the pushes.
\<close>

definition coreToolDefinitions :: "AgentConfig \<Rightarrow> ToolDefinition list" where
  "coreToolDefinitions cfg =
     (if tools_mode cfg = ''default'' \<or> tools_mode cfg = ''hybrid'' then
        (if tool_enabled (cfg_searchProduct (tools cfg)) then [search_product_def] else [])
        @ (if tool_enabled (cfg_addToCart (tools cfg)) then [add_to_cart_def] else [])
        @ (if tool_enabled (cfg_getOrder (tools cfg)) then [get_order_def] else [])
        @ (if tool_enabled (cfg_searchProduct (tools cfg)) then [show_product_def] else [])
        @ (if source_is_rag (companyInfo (knowledge cfg))
              \<or> source_is_rag (products (knowledge cfg))
           then [rag_query_def] else [])
      else [])"

text \<open>One round of the loop over \<open>agentConfig.tools.custom\<close>.\<close>

definition customToolDefinition :: "CustomTool \<Rightarrow> ToolDefinition list" where
  "customToolDefinition t =
     (let isEnabled = (ct_enabled t = Some (JBool True))
      in if \<not> truthy_str (ct_name t) \<or> \<not> truthy_str (ct_baseUrl t) then []
         else if isEnabled then
           [\<lparr>td_name = the (ct_name t),
             td_description =
               (if truthy_str (ct_description t) then the (ct_description t)
                else ''Custom tool: '' @ the (ct_name t)),
             td_parameters =
               (if truthy_opt (ct_parameters t) then the (ct_parameters t)
                else JObj [(''type'', JStr ''object''), (''properties'', JObj [])])\<rparr>]
         else [])"

text \<open>
  The second block: the definitions pushed under
  \<open>if ((mode === 'custom' || mode === 'hybrid') && agentConfig.tools.custom)\<close>.
\<close>

definition customToolDefinitions :: "AgentConfig \<Rightarrow> ToolDefinition list" where
  "customToolDefinitions cfg =
     (if tools_mode cfg = ''custom'' \<or> tools_mode cfg = ''hybrid'' then
        (case custom (tools cfg) of
           None \<Rightarrow> []
         | Some ts \<Rightarrow> concat (map customToolDefinition ts))
      else [])"

definition getToolDefinitions :: "AgentConfig \<Rightarrow> ToolDefinition list" where
  "getToolDefinitions cfg = coreToolDefinitions cfg @ customToolDefinitions cfg"

text \<open>
  The condition under which the first block pushes the definition of a given name:
  \<open>show_product\<close> shares the flag of \<open>search_product\<close>, and the knowledge-retrieval
  query is switched by the source of the company or product knowledge.
\<close>

definition core_capability :: "AgentConfig \<Rightarrow> string \<Rightarrow> bool" where
  "core_capability cfg n =
     ((n = ''search_product'' \<and> tool_enabled (cfg_searchProduct (tools cfg)))
      \<or> (n = ''add_to_cart'' \<and> tool_enabled (cfg_addToCart (tools cfg)))
      \<or> (n = ''get_order'' \<and> tool_enabled (cfg_getOrder (tools cfg)))
      \<or> (n = ''show_product'' \<and> tool_enabled (cfg_searchProduct (tools cfg)))
      \<or> (n = ''rag_query'' \<and> (source_is_rag (companyInfo (knowledge cfg))
                                \<or> source_is_rag (products (knowledge cfg)))))"

section \<open>Orchestrator: cost estimate\<close>







subsection \<open>Sample configurations\<close>

definition cfg_mode_unset :: AgentConfig where
  "cfg_mode_unset =
    \<lparr>llm = \<lparr>llm_provider = ''openai'', llm_model = ''gpt-4o''\<rparr>,
     knowledge = \<lparr>companyInfo = None, products = None\<rparr>,
     tools = \<lparr>mode = None,
              cfg_searchProduct = Some \<lparr>enabled = Some (JBool True), tc_type = None\<rparr>,
              cfg_addToCart = None, cfg_getOrder = None, custom = None\<rparr>\<rparr>"

definition sample_custom_tool :: CustomTool where
  "sample_custom_tool =
    \<lparr>ct_name = Some ''get_student'', ct_baseUrl = Some ''https://school.example'',
     ct_path = Some ''/api/students/{studentId}'', ct_method = Some ''GET'',
     ct_apiKeyEncrypted = None, ct_enabled = Some (JBool True),
     ct_description = None, ct_parameters = None\<rparr>"

definition cfg_with_mode :: "string \<Rightarrow> AgentConfig" where
  "cfg_with_mode m =
    \<lparr>llm = \<lparr>llm_provider = ''openai'', llm_model = ''gpt-4o''\<rparr>,
     knowledge = \<lparr>companyInfo = None, products = None\<rparr>,
     tools = \<lparr>mode = Some m,
              cfg_searchProduct = Some \<lparr>enabled = Some (JBool True), tc_type = None\<rparr>,
              cfg_addToCart = None, cfg_getOrder = None,
              custom = Some [sample_custom_tool]\<rparr>\<rparr>"

section \<open>Tool results\<close>

record 'd ToolResult =
  tr_success :: bool
  tr_data :: "'d option"
  tr_error :: "string option"
  tr_needsUserInput :: "bool option"
  tr_question :: "string option"

record ToolContext =
  tenantId :: string
  userId :: string
  conversationId :: string
  agentConfig :: AgentConfig

definition failed :: "string \<Rightarrow> 'd ToolResult" where
  "failed msg = \<lparr>tr_success = False, tr_data = None, tr_error = Some msg,
                  tr_needsUserInput = None, tr_question = None\<rparr>"

definition succeeded :: "'d \<Rightarrow> 'd ToolResult" where
  "succeeded d = \<lparr>tr_success = True, tr_data = Some d, tr_error = None,
                   tr_needsUserInput = None, tr_question = None\<rparr>"

definition asks_user :: "string \<Rightarrow> string \<Rightarrow> 'd ToolResult" where
  "asks_user q msg = \<lparr>tr_success = False, tr_data = None, tr_error = Some msg,
                       tr_needsUserInput = Some True, tr_question = Some q\<rparr>"

section \<open>Stores\<close>

text \<open>
  The collections \<open>products\<close> and \<open>orders\<close> are lists of documents in the order in
  which \<open>find\<close> without a sort visits them. The records hold the properties the tools
  read or write. An \<open>ObjectId\<close> is its 24 hexadecimal digits in lower case.
\<close>

record ProductPrice =
  pp_regular :: real
  pp_sale :: real

record Product =
  p_id :: "string option"
  p_domain :: string
  p_title :: string
  p_slug :: string
  p_description_short :: "string option"
  p_description_long :: "string option"
  p_price :: ProductPrice
  p_image_default :: "string list option"
  p_stock :: "real option"
  p_is_available :: bool
  p_is_trash :: "bool option"
  p_order :: "real option"

record OrderProduct =
  op_productId :: string
  op_id :: string
  op_title :: string
  op_image :: string
  op_qty :: real
  op_price_regular :: real
  op_price_sale :: real
  op_valid_price :: real
  op_slug :: string
  op_isValid :: bool

record ClientInfo =
  ci_doc :: string
  ci_name :: string
  ci_email :: string
  ci_phone :: string

record PaymentStatus =
  ps_typeStatus :: string
  ps_message :: string
  ps_date :: nat
  ps_methodPayment :: string

record OrderStatus =
  os_typeStatus :: string
  os_message :: string
  os_date :: "nat option"

record Order =
  o_id :: "string option"
  o_domain :: string
  o_products :: "OrderProduct list"
  o_clientInfo :: ClientInfo
  o_billingInfo :: ClientInfo
  o_shippingInfo :: ClientInfo
  o_paymentStatus :: PaymentStatus
  o_total :: real
  o_currency :: string
  o_orderStatus :: OrderStatus
  o_createdAt :: nat
  o_updatedAt :: nat
  o_orderNumber :: string

text \<open>
  The state the tools run in: the two collections, the clock, and the values that
  \<open>generateOrderNumber\<close> (built from \<open>Date.now()\<close> and \<open>Math.random()\<close>) and
  \<open>insertOne\<close> (the inserted id) produce, as sequences read at \<open>w_tick\<close>.
\<close>

record World =
  w_products :: "Product list"
  w_orders :: "Order list"
  w_now :: nat
  w_orderNumbers :: "nat \<Rightarrow> string"
  w_objectIds :: "nat \<Rightarrow> string"
  w_tick :: nat

subsection \<open>Array and driver primitives\<close>

text \<open>\<open>Array.prototype.findIndex\<close>; \<open>None\<close> is the result \<open>-1\<close>.\<close>

fun findIndex :: "('a \<Rightarrow> bool) \<Rightarrow> 'a list \<Rightarrow> nat option" where
  "findIndex P [] = None"
| "findIndex P (x # xs) =
     (if P x then Some 0 else (case findIndex P xs of None \<Rightarrow> None | Some i \<Rightarrow> Some (Suc i)))"

text \<open>\<open>ObjectId.isValid\<close> on a string: 24 hexadecimal digits.\<close>

definition ObjectId_isValid :: "string \<Rightarrow> bool" where
  "ObjectId_isValid s =
     (length s = 24 \<and> (\<forall>c \<in> set s. c \<in> set ''0123456789abcdefABCDEF''))"

text \<open>\<open>cursor.limit(n)\<close>: zero means no limit, a negative number limits to its magnitude.\<close>

definition mongo_limit :: "int \<Rightarrow> 'a list \<Rightarrow> 'a list" where
  "mongo_limit n xs = (if n = 0 then xs else take (nat \<bar>n\<bar>) xs)"

text \<open>\<open>String.prototype.trim\<close> on the white space of the Latin-1 range.\<close>

definition is_white_space :: "char \<Rightarrow> bool" where
  "is_white_space c = (c \<in> set [CHR 0x09, CHR 0x0A, CHR 0x0B, CHR 0x0C, CHR 0x0D, CHR 0x20, CHR 0xA0])"

definition trim :: "string \<Rightarrow> string" where
  "trim s = rev (dropWhile is_white_space (rev (dropWhile is_white_space s)))"

subsection \<open>\<open>ProductsRepo\<close>\<close>



definition productsRepo_getById :: "World \<Rightarrow> string \<Rightarrow> string \<Rightarrow> Product option" where
  "productsRepo_getById w tenant identifier =
     (let bySlug = find (\<lambda>p. p_domain p = tenant \<and> p_slug p = identifier
                              \<and> p_is_trash p = Some False) (w_products w)
      in if ObjectId_isValid identifier then
           (case find (\<lambda>p. p_id p = Some (toLowerCase identifier) \<and> p_domain p = tenant
                            \<and> p_is_trash p = Some False) (w_products w) of
              Some p \<Rightarrow> Some p
            | None \<Rightarrow> bySlug)
         else bySlug)"

definition getProductPrice :: "Product \<Rightarrow> real" where
  "getProductPrice p =
     (if pp_sale (p_price p) > 0 then pp_sale (p_price p) else pp_regular (p_price p))"

definition getProductImage :: "Product \<Rightarrow> string option" where
  "getProductImage p =
     (case p_image_default p of
        Some (x # xs) \<Rightarrow> Some x
      | _ \<Rightarrow> None)"

subsection \<open>\<open>OrdersRepo\<close>\<close>

definition ordersRepo_getById :: "World \<Rightarrow> string \<Rightarrow> string \<Rightarrow> Order option" where
  "ordersRepo_getById w tenant identifier =
     (let byNumber = find (\<lambda>ord. o_domain ord = tenant \<and> o_orderNumber ord = identifier) (w_orders w)
      in if ObjectId_isValid identifier then
           (case find (\<lambda>ord. o_id ord = Some (toLowerCase identifier) \<and> o_domain ord = tenant)
                   (w_orders w) of
              Some ord \<Rightarrow> Some ord
            | None \<Rightarrow> byNumber)
         else byNumber)"

text \<open>\<open>getByUser\<close>: newest first (\<open>sort({ createdAt: -1 })\<close>).\<close>

definition ordersRepo_getByUser :: "World \<Rightarrow> string \<Rightarrow> string \<Rightarrow> int \<Rightarrow> Order list" where
  "ordersRepo_getByUser w tenant userIdentifier limit =
     mongo_limit limit
       (rev (sort_key o_createdAt
          (filter (\<lambda>ord. o_domain ord = tenant
                        \<and> (ci_email (o_clientInfo ord) = userIdentifier
                             \<or> ci_phone (o_clientInfo ord) = userIdentifier))
             (w_orders w))))"

definition is_active_cart :: "string \<Rightarrow> string \<Rightarrow> Order \<Rightarrow> bool" where
  "is_active_cart tenant userIdentifier ord =
     (o_domain ord = tenant \<and> os_typeStatus (o_orderStatus ord) = ''pending''
      \<and> (ci_email (o_clientInfo ord) = userIdentifier
           \<or> ci_phone (o_clientInfo ord) = userIdentifier))"

definition ordersRepo_getActiveCart :: "World \<Rightarrow> string \<Rightarrow> string \<Rightarrow> Order option" where
  "ordersRepo_getActiveCart w tenant userIdentifier =
     find (is_active_cart tenant userIdentifier) (w_orders w)"

text \<open>\<open>create\<close>: the argument carries the properties other than the id and the dates.\<close>

definition ordersRepo_create :: "World \<Rightarrow> Order \<Rightarrow> Order \<times> World" where
  "ordersRepo_create w order =
     (let newOrder = order\<lparr>o_createdAt := w_now w, o_updatedAt := w_now w,
                            o_id := Some (w_objectIds w (w_tick w))\<rparr>
      in (newOrder, w\<lparr>w_orders := w_orders w @ [newOrder], w_tick := Suc (w_tick w)\<rparr>))"

text \<open>The \<open>reduce\<close> that recomputes a total, in \<open>addToCart\<close> and in \<open>updateProducts\<close>.\<close>

definition lines_total :: "OrderProduct list \<Rightarrow> real" where
  "lines_total ps = foldl (\<lambda>sum p. sum + op_valid_price p * op_qty p) 0 ps"

definition ordersRepo_updateProducts ::
  "World \<Rightarrow> string \<Rightarrow> string \<Rightarrow> OrderProduct list \<Rightarrow> Order option \<times> World" where
  "ordersRepo_updateProducts w tenant orderNumber ps =
     (let total = lines_total ps
      in case findIndex (\<lambda>ord. o_domain ord = tenant \<and> o_orderNumber ord = orderNumber) (w_orders w) of
           None \<Rightarrow> (None, w)
         | Some i \<Rightarrow>
             (let result = (w_orders w ! i)\<lparr>o_products := ps, o_total := total,
                                            o_updatedAt := w_now w\<rparr>
              in (Some result, w\<lparr>w_orders := (w_orders w)[i := result]\<rparr>)))"

definition generateOrderNumber :: "World \<Rightarrow> string \<times> World" where
  "generateOrderNumber w = (w_orderNumbers w (w_tick w), w\<lparr>w_tick := Suc (w_tick w)\<rparr>)"

section \<open>Tool registry: core tools\<close>

text \<open>
  A tool receives its arguments with the types its advertised schema declares; a property
  the call leaves out is \<open>None\<close>. Database and network failures, which the tools turn
  into failed results, are outside the model of the stores.
\<close>

subsection \<open>\<open>add_to_cart\<close>\<close>

record AddToCartArgs =
  a_productId :: "string option"
  a_quantity :: "real option"

record CartView =
  cv_orderNumber :: string
  cv_products :: "OrderProduct list"
  cv_total :: real
  cv_currency :: string

record CartData =
  cd_message :: string
  cd_cart :: CartView

definition defaultClientInfo :: "string \<Rightarrow> ClientInfo" where
  "defaultClientInfo user =
     \<lparr>ci_doc = [], ci_name = [],
      ci_email = (if CHR ''@'' \<in> set user then user else user @ ''@temp.com''),
      ci_phone = (if CHR ''@'' \<in> set user then [] else user)\<rparr>"

text \<open>The argument of \<open>ordersRepo.create\<close> for a new cart.\<close>

definition newCart :: "World \<Rightarrow> string \<Rightarrow> string \<Rightarrow> string \<Rightarrow> Order" where
  "newCart w tenant user orderNumber =
     \<lparr>o_id = None, o_domain = tenant, o_products = [],
      o_clientInfo = defaultClientInfo user,
      o_billingInfo = defaultClientInfo user,
      o_shippingInfo = defaultClientInfo user,
      o_paymentStatus = \<lparr>ps_typeStatus = ''pending'', ps_message = [], ps_date = w_now w,
                          ps_methodPayment = []\<rparr>,
      o_total = 0, o_currency = ''PEN'',
      o_orderStatus = \<lparr>os_typeStatus = ''pending'', os_message = [], os_date = None\<rparr>,
      o_createdAt = 0, o_updatedAt = 0,
      o_orderNumber = orderNumber\<rparr>"

text \<open>The line pushed for a product that is not in the cart yet.\<close>

definition newLine :: "Product \<Rightarrow> string \<Rightarrow> real \<Rightarrow> real \<Rightarrow> OrderProduct" where
  "newLine product productIdStr quantity productPrice =
     \<lparr>op_productId = productIdStr, op_id = productIdStr,
      op_title = (if p_title product \<noteq> [] then p_title product else ''Producto sin nombre''),
      op_image = (case getProductImage product of
                    None \<Rightarrow> []
                  | Some i \<Rightarrow> i),
      op_qty = quantity,
      op_price_regular = (if pp_regular (p_price product) \<noteq> 0
                          then pp_regular (p_price product) else productPrice),
      op_price_sale = (if pp_sale (p_price product) \<noteq> 0 then pp_sale (p_price product) else 0),
      op_valid_price = productPrice,
      op_slug = p_slug product,
      op_isValid = True\<rparr>"

text \<open>The \<open>findIndex\<close> test and the two branches that follow it.\<close>

definition same_product :: "string \<Rightarrow> OrderProduct \<Rightarrow> bool" where
  "same_product productIdStr p = (op_productId p = productIdStr \<or> op_id p = productIdStr)"

definition mergeLine ::
  "Product \<Rightarrow> string \<Rightarrow> real \<Rightarrow> real \<Rightarrow> OrderProduct list \<Rightarrow> OrderProduct list" where
  "mergeLine product productIdStr quantity productPrice ps =
     (case findIndex (same_product productIdStr) ps of
        Some i \<Rightarrow> ps[i := (ps ! i)\<lparr>op_qty := op_qty (ps ! i) + quantity,
                                    op_valid_price := productPrice\<rparr>]
      | None \<Rightarrow> ps @ [newLine product productIdStr quantity productPrice])"

text \<open>\<open>product._id?.toString() || productId\<close>.\<close>

definition productIdStr_of :: "Product \<Rightarrow> string \<Rightarrow> string" where
  "productIdStr_of product productId =
     (if truthy_str (p_id product) then the (p_id product) else productId)"

definition addToCart :: "AddToCartArgs \<Rightarrow> ToolContext \<Rightarrow> World \<Rightarrow> CartData ToolResult \<times> World" where
  "addToCart args ctx w =
     (let quantity = (case a_quantity args of None \<Rightarrow> 1 | Some q \<Rightarrow> q)
      in if \<not> truthy_str (a_productId args) then (failed ''productId parameter is required'', w)
         else
          (let productId = the (a_productId args)
           in case productsRepo_getById w (tenantId ctx) productId of
                None \<Rightarrow> (failed (''Product not found: '' @ productId), w)
              | Some product \<Rightarrow>
                  (let productPrice = getProductPrice product;
                       productIdStr = productIdStr_of product productId;
                       (cart, w1) =
                          (case ordersRepo_getActiveCart w (tenantId ctx) (userId ctx) of
                             Some c \<Rightarrow> (c, w)
                           | None \<Rightarrow>
                               (let (orderNumber, w0) = generateOrderNumber w
                                in ordersRepo_create w0
                                     (newCart w0 (tenantId ctx) (userId ctx) orderNumber)));
                       ps = mergeLine product productIdStr quantity productPrice (o_products cart);
                       total = lines_total ps;
                       (updatedCart, w2) =
                          ordersRepo_updateProducts w1 (tenantId ctx) (o_orderNumber cart) ps
                   in case updatedCart of
                        None \<Rightarrow> (failed ''Failed to update cart'', w2)
                      | Some u \<Rightarrow>
                          (succeeded
                             \<lparr>cd_message = ''Producto '' @ p_title product @ '' agregado al carrito'',
                              cd_cart = \<lparr>cv_orderNumber = o_orderNumber cart, cv_products = ps,
                                         cv_total = total, cv_currency = o_currency cart\<rparr>\<rparr>,
                           w2))))"

subsection \<open>\<open>get_order\<close>\<close>

record GetOrderArgs =
  g_orderId :: "string option"
  g_orderNumber :: "string option"
  g_email :: "string option"
  g_phone :: "string option"

record OrderData =
  od_orderNumber :: string
  od_products :: "OrderProduct list"
  od_total :: real
  od_currency :: string
  od_paymentStatus :: PaymentStatus
  od_orderStatus :: OrderStatus
  od_clientInfo :: ClientInfo
  od_createdAt :: nat

definition question_missing :: string where
  "question_missing =
     ''Para buscar tu orden, necesito alguna de estas informaciones: n'' @ u_acute
     @ ''mero de orden, tu email o tu tel'' @ e_acute @ ''fono. '' @ inv_question @ ''Cu''
     @ a_acute @ ''l puedes proporcionarme?''"

definition question_not_found :: string where
  "question_not_found =
     ''No encontr'' @ e_acute @ '' ninguna orden con esa informaci'' @ o_acute @ ''n. ''
     @ inv_question @ ''Podr'' @ i_acute @ ''as verificar el n'' @ u_acute
     @ ''mero de orden, email o tel'' @ e_acute @ ''fono?''"

text \<open>
  The lookup of \<open>getOrder\<close>: \<open>None\<close> when no branch applies (the early return), else the
  value of \<open>order\<close> after the \<open>if\<close> chain.
\<close>

definition lookupOrder :: "GetOrderArgs \<Rightarrow> ToolContext \<Rightarrow> World \<Rightarrow> Order option option" where
  "lookupOrder args ctx w =
     (if truthy_str (g_orderNumber args) then
        Some (ordersRepo_getById w (tenantId ctx) (the (g_orderNumber args)))
      else if truthy_str (g_orderId args) then
        Some (ordersRepo_getById w (tenantId ctx) (the (g_orderId args)))
      else if truthy_str (g_email args) \<or> truthy_str (g_phone args) then
        (let userIdentifier = (if truthy_str (g_email args) then the (g_email args)
                               else the (g_phone args));
             orders = ordersRepo_getByUser w (tenantId ctx) userIdentifier 1
         in Some (case orders of [] \<Rightarrow> None | ord # rest \<Rightarrow> Some ord))
      else None)"

definition getOrder :: "GetOrderArgs \<Rightarrow> ToolContext \<Rightarrow> World \<Rightarrow> OrderData ToolResult" where
  "getOrder args ctx w =
     (case lookupOrder args ctx w of
        None \<Rightarrow>
          asks_user question_missing
            ''Missing required information: orderNumber, orderId, email, or phone''
      | Some None \<Rightarrow> asks_user question_not_found ''Order not found''
      | Some (Some order) \<Rightarrow>
          succeeded
            \<lparr>od_orderNumber = o_orderNumber order, od_products = o_products order,
             od_total = o_total order, od_currency = o_currency order,
             od_paymentStatus = o_paymentStatus order, od_orderStatus = o_orderStatus order,
             od_clientInfo = o_clientInfo order, od_createdAt = o_createdAt order\<rparr>)"

subsection \<open>Conditions on the order store\<close>




subsection \<open>\<open>search_product\<close>\<close>







subsection \<open>Sample stores\<close>

definition sample_product :: Product where
  "sample_product =
    \<lparr>p_id = Some ''64b7f0c2a1d3e4f5a6b7c8d9'', p_domain = ''shop.example'',
     p_title = ''Mesa'', p_slug = ''mesa'',
     p_description_short = None, p_description_long = None,
     p_price = \<lparr>pp_regular = 100, pp_sale = 80\<rparr>,
     p_image_default = None, p_stock = None,
     p_is_available = True, p_is_trash = Some False, p_order = Some 1\<rparr>"

definition sample_ctx :: ToolContext where
  "sample_ctx =
    \<lparr>tenantId = ''shop.example'', userId = ''ana@example.com'', conversationId = ''c1'',
     agentConfig = cfg_with_mode ''default''\<rparr>"

text \<open>A store with one product and no order.\<close>

definition sample_world :: World where
  "sample_world =
    \<lparr>w_products = [sample_product], w_orders = [], w_now = 1000,
     w_orderNumbers = (\<lambda>n. ''1000abcdefghi''),
     w_objectIds = (\<lambda>n. ''64b7f0c2a1d3e4f5a6b7c8da''),
     w_tick = 0\<rparr>"

text \<open>The line of a cart that holds five units of the sample product, with a stale price.\<close>

definition sample_line :: OrderProduct where
  "sample_line =
    \<lparr>op_productId = ''64b7f0c2a1d3e4f5a6b7c8d9'', op_id = ''64b7f0c2a1d3e4f5a6b7c8d9'',
     op_title = ''Mesa'', op_image = [], op_qty = 5,
     op_price_regular = 100, op_price_sale = 0, op_valid_price = 100,
     op_slug = ''mesa'', op_isValid = True\<rparr>"

definition sample_cart :: Order where
  "sample_cart =
    \<lparr>o_id = Some ''64b7f0c2a1d3e4f5a6b7c8db'', o_domain = ''shop.example'',
     o_products = [sample_line],
     o_clientInfo = defaultClientInfo ''ana@example.com'',
     o_billingInfo = defaultClientInfo ''ana@example.com'',
     o_shippingInfo = defaultClientInfo ''ana@example.com'',
     o_paymentStatus = \<lparr>ps_typeStatus = ''pending'', ps_message = [], ps_date = 900,
                         ps_methodPayment = []\<rparr>,
     o_total = 500, o_currency = ''PEN'',
     o_orderStatus = \<lparr>os_typeStatus = ''pending'', os_message = [], os_date = None\<rparr>,
     o_createdAt = 900, o_updatedAt = 900,
     o_orderNumber = ''900zyxwvutsr''\<rparr>"

text \<open>The same store once the user has that cart.\<close>

definition cart_world :: World where
  "cart_world = sample_world\<lparr>w_orders := [sample_cart]\<rparr>"

definition add_sample :: "real \<Rightarrow> World \<Rightarrow> CartData ToolResult \<times> World" where
  "add_sample q w = addToCart \<lparr>a_productId = Some ''mesa'', a_quantity = Some q\<rparr> sample_ctx w"


definition no_identifier :: GetOrderArgs where
  "no_identifier = \<lparr>g_orderId = None, g_orderNumber = None, g_email = None, g_phone = None\<rparr>"

definition unknown_email :: GetOrderArgs where
  "unknown_email = \<lparr>g_orderId = None, g_orderNumber = None,
                     g_email = Some ''nobody@example.com'', g_phone = None\<rparr>"






section \<open>Tool registry: custom tools\<close>

subsection \<open>String primitives\<close>

text \<open>
  \<open>Number.prototype.toString\<close> is the parameter \<open>numstr\<close> of the functions below.
  \<open>String(v)\<close> for the other values: an array joins the strings of its elements with commas,
  \<open>null\<close> elements giving the empty string, and an object gives \<open>[object Object]\<close>.
\<close>

fun join :: "string \<Rightarrow> string list \<Rightarrow> string" where
  "join sep [] = []"
| "join sep [x] = x"
| "join sep (x # y # ys) = x @ sep @ join sep (y # ys)"

fun js_String :: "(real \<Rightarrow> string) \<Rightarrow> json \<Rightarrow> string" where
  "js_String numstr JNull = ''null''"
| "js_String numstr (JBool b) = (if b then ''true'' else ''false'')"
| "js_String numstr (JNum n) = numstr n"
| "js_String numstr (JStr s) = s"
| "js_String numstr (JArr xs) =
     join '','' (map (\<lambda>x. if x = JNull then [] else js_String numstr x) xs)"
| "js_String numstr (JObj kvs) = ''[object Object]''"

text \<open>
  The first occurrence of a pattern in a string: the text before it and the text after it.
  \<open>String.prototype.includes\<close> asks whether there is one.
\<close>

fun find_sub :: "string \<Rightarrow> string \<Rightarrow> (string \<times> string) option" where
  "find_sub pat [] = (if pat = [] then Some ([], []) else None)"
| "find_sub pat (c # cs) =
     (if take (length pat) (c # cs) = pat then Some ([], drop (length pat) (c # cs))
      else (case find_sub pat cs of
              None \<Rightarrow> None
            | Some (before, after) \<Rightarrow> Some (c # before, after)))"









subsection \<open>\<open>executeCustomTool\<close>\<close>







subsection \<open>Path templates\<close>

text \<open>
  A path seen as literal text and placeholders, the text it stands for, and the text in
  which the placeholders of the given arguments are filled in.
\<close>

datatype segment = Lit string | Hole string



definition fill_segment :: "(string \<Rightarrow> string option) \<Rightarrow> segment \<Rightarrow> segment" where
  "fill_segment vals seg =
     (case seg of
        Lit s \<Rightarrow> Lit s
      | Hole k \<Rightarrow> (case vals k of None \<Rightarrow> Hole k | Some v \<Rightarrow> Lit v))"

definition holes :: "segment list \<Rightarrow> string list" where
  "holes segs = concat (map (\<lambda>seg. case seg of Lit s \<Rightarrow> [] | Hole k \<Rightarrow> [k]) segs)"


text \<open>
  A well-formed template: no brace in a literal or in the name of a placeholder, and no
  placeholder twice. Plain values: no brace and no dollar sign in the text of a value.
\<close>

definition plain :: "string \<Rightarrow> bool" where
  "plain s = (CHR ''{'' \<notin> set s \<and> CHR ''}'' \<notin> set s)"








subsection \<open>Sample custom tools\<close>




definition sample_numstr :: "real \<Rightarrow> string" where
  "sample_numstr n = ''0''"



section \<open>Orchestrator\<close>

subsection \<open>Builtins of the runtime\<close>

text \<open>
  The builtins whose results depend on the text of numbers or of JSON are parameters of the
  model: \<open>JSON.parse\<close> (\<open>None\<close> when it throws a \<open>SyntaxError\<close>), \<open>Number.prototype.toString\<close>,
  the conversion of a string to a number (\<open>None\<close> for \<open>NaN\<close>) and
  \<open>Number.prototype.toFixed\<close> as text.
\<close>

record Builtins =
  JSON_parse :: "string \<Rightarrow> json option"
  Number_toString :: "real \<Rightarrow> string"
  String_toNumber :: "string \<Rightarrow> real option"
  Number_toFixed :: "nat \<Rightarrow> real \<Rightarrow> string"

datatype js_error = TypeError | SyntaxError | ProviderError string | ConfigNotFound string

text \<open>\<open>String(v)\<close> of a value that may be \<open>undefined\<close>, as a template literal prints it.\<close>

definition str_of :: "Builtins \<Rightarrow> json option \<Rightarrow> string" where
  "str_of rt v = (case v of None \<Rightarrow> ''undefined'' | Some w \<Rightarrow> js_String (Number_toString rt) w)"

text \<open>\<open>ToNumber\<close>; \<open>None\<close> is \<open>NaN\<close>.\<close>

definition toNumber :: "Builtins \<Rightarrow> json \<Rightarrow> real option" where
  "toNumber rt v =
     (case v of
        JNull \<Rightarrow> Some 0
      | JBool b \<Rightarrow> Some (if b then 1 else 0)
      | JNum n \<Rightarrow> Some n
      | JStr s \<Rightarrow> String_toNumber rt s
      | JArr xs \<Rightarrow> String_toNumber rt (js_String (Number_toString rt) (JArr xs))
      | JObj kvs \<Rightarrow> None)"

text \<open>\<open>v > n\<close> for a value that may be \<open>undefined\<close> and a number \<open>n\<close>.\<close>

definition gt_number :: "Builtins \<Rightarrow> json option \<Rightarrow> real \<Rightarrow> bool" where
  "gt_number rt v n =
     (case v of
        None \<Rightarrow> False
      | Some w \<Rightarrow> (case toNumber rt w of None \<Rightarrow> False | Some x \<Rightarrow> x > n))"

text \<open>The property \<open>length\<close> of a value other than \<open>null\<close>.\<close>

definition js_length :: "json \<Rightarrow> json option" where
  "js_length v =
     (case v of
        JStr s \<Rightarrow> Some (JNum (real (length s)))
      | JArr xs \<Rightarrow> Some (JNum (real (length xs)))
      | JObj kvs \<Rightarrow> map_of kvs ''length''
      | _ \<Rightarrow> None)"

text \<open>\<open>a || b\<close> where \<open>a\<close> may be \<open>undefined\<close>.\<close>

definition or_else :: "json option \<Rightarrow> json \<Rightarrow> json" where
  "or_else a b = (case a of None \<Rightarrow> b | Some v \<Rightarrow> if truthy v then v else b)"

definition or_opt :: "json option \<Rightarrow> json option \<Rightarrow> json option" where
  "or_opt a b = (case a of None \<Rightarrow> b | Some v \<Rightarrow> if truthy v then Some v else b)"

text \<open>
  \<open>v?.k\<close> on a value that may be \<open>undefined\<close> or \<open>null\<close>, and \<open>v.k\<close>, which throws on
  \<open>null\<close>.
\<close>

definition opt_chain :: "string \<Rightarrow> json option \<Rightarrow> json option" where
  "opt_chain k v = (case v of None \<Rightarrow> None | Some w \<Rightarrow> get_prop k w)"

definition read_prop :: "string \<Rightarrow> json \<Rightarrow> js_error + json option" where
  "read_prop k v = (if v = JNull then Inl TypeError else Inr (get_prop k v))"

text \<open>Decimal digits of an index, for the keys of a spread array or string.\<close>

fun digits :: "nat \<Rightarrow> nat \<Rightarrow> string" where
  "digits 0 n = []"
| "digits (Suc fuel) n =
     (if n < 10 then [''0123456789'' ! n]
      else digits fuel (n div 10) @ [''0123456789'' ! (n mod 10)])"

definition index_key :: "nat \<Rightarrow> string" where
  "index_key n = digits (Suc n) n"

text \<open>\<open>{ ...v }\<close>: the own enumerable properties of a value.\<close>

definition spread :: "json \<Rightarrow> (string \<times> json) list" where
  "spread v =
     (case v of
        JObj kvs \<Rightarrow> kvs
      | JArr xs \<Rightarrow> map (\<lambda>i. (index_key i, xs ! i)) [0..<length xs]
      | JStr s \<Rightarrow> map (\<lambda>i. (index_key i, JStr [s ! i])) [0..<length s]
      | _ \<Rightarrow> [])"

text \<open>\<open>obj[k] = v\<close> on the entries of an object: in place, or appended.\<close>

fun set_entry :: "string \<Rightarrow> json \<Rightarrow> (string \<times> json) list \<Rightarrow> (string \<times> json) list" where
  "set_entry k v [] = [(k, v)]"
| "set_entry k v ((k', v') # kvs) =
     (if k' = k then (k, v) # kvs else (k', v') # set_entry k v kvs)"

subsection \<open>Responses\<close>

record AgentResponse =
  ar_message :: json
  ar_audio_description :: json
  ar_action :: json

definition null_action :: json where
  "null_action = JObj [(''type'', JNull), (''payload'', JObj [])]"

text \<open>An action object \<open>{type, payload}\<close>; an \<open>undefined\<close> payload leaves no property.\<close>

definition mk_action :: "json \<Rightarrow> json option \<Rightarrow> json" where
  "mk_action t p =
     JObj ((''type'', t) # (case p of None \<Rightarrow> [] | Some v \<Rightarrow> [(''payload'', v)]))"

text \<open>
  \<open>generateAudioDescription\<close>. A description that is not a string has no \<open>substring\<close>
  method, so that shortening it throws.
\<close>

definition generateAudioDescription ::
  "Builtins \<Rightarrow> json \<Rightarrow> json option \<Rightarrow> js_error + json" where
  "generateAudioDescription rt message act =
     (if message = JNull then Inl TypeError
      else
       (let shortened =
              (if gt_number rt (js_length message) 200 then
                 (case message of
                    JStr s \<Rightarrow> Inr (JStr (take 197 s @ ''...''))
                  | _ \<Rightarrow> Inl TypeError)
               else Inr message)
        in case shortened of
             Inl e \<Rightarrow> Inl e
           | Inr description \<Rightarrow>
               (if truthy_opt (opt_chain ''type'' act)
                then Inr (JStr (js_String (Number_toString rt) description
                                @ '' Acci'' @ o_acute @ ''n: ''
                                @ str_of rt (opt_chain ''type'' act) @ ''.''))
                else Inr description)))"

text \<open>
  \<open>content.match(/\{[\s\S]*\}/)\<close>: the text from the first opening brace to the last
  closing brace after it.
\<close>

definition match_braces :: "string \<Rightarrow> string option" where
  "match_braces content =
     (let fromOpen = dropWhile (\<lambda>c. c \<noteq> CHR ''{'') content;
          matched = rev (dropWhile (\<lambda>c. c \<noteq> CHR ''}'') (rev fromOpen))
      in if matched = [] then None else Some matched)"

text \<open>The body of the \<open>try\<close> block of \<open>parseLLMResponse\<close>, and the response of its fallback.\<close>

definition plainResponse :: "Builtins \<Rightarrow> string \<Rightarrow> js_error + AgentResponse" where
  "plainResponse rt content =
     (case generateAudioDescription rt (JStr content) None of
        Inl e \<Rightarrow> Inl e
      | Inr audio \<Rightarrow>
          Inr \<lparr>ar_message = JStr content, ar_audio_description = audio,
               ar_action = null_action\<rparr>)"

definition parseBody :: "Builtins \<Rightarrow> string \<Rightarrow> js_error + AgentResponse" where
  "parseBody rt content =
     (case match_braces content of
        None \<Rightarrow> plainResponse rt content
      | Some jsonMatch \<Rightarrow>
          (case JSON_parse rt jsonMatch of
             None \<Rightarrow> Inl SyntaxError
           | Some parsed \<Rightarrow>
               (case read_prop ''message'' parsed of
                  Inl e \<Rightarrow> Inl e
                | Inr m \<Rightarrow>
                    (let msg = or_else m (JStr content);
                         audio = (if truthy_opt (get_prop ''audio_description'' parsed)
                                  then Inr (the (get_prop ''audio_description'' parsed))
                                  else generateAudioDescription rt msg None)
                     in case audio of
                          Inl e \<Rightarrow> Inl e
                        | Inr a \<Rightarrow>
                            Inr \<lparr>ar_message = msg, ar_audio_description = a,
                                 ar_action = or_else (get_prop ''action'' parsed)
                                               null_action\<rparr>))))"

definition parseLLMResponse :: "Builtins \<Rightarrow> string \<Rightarrow> js_error + AgentResponse" where
  "parseLLMResponse rt content =
     (case parseBody rt content of
        Inr response \<Rightarrow> Inr response
      | Inl e \<Rightarrow> plainResponse rt content)"

text \<open>The audio description that \<open>generateAudioDescription\<close> gives for a text.\<close>

definition audioOfText :: "string \<Rightarrow> string" where
  "audioOfText s = (if length s > 200 then take 197 s @ ''...'' else s)"

subsection \<open>The provider\<close>

record TokenUsage =
  tk_prompt :: real
  tk_completion :: real
  tk_total :: real

record ToolCall =
  tc_name :: string
  tc_arguments :: json

record LLMResponse =
  lr_content :: string
  lr_model :: string
  lr_tokens :: "TokenUsage option"
  lr_toolCalls :: "ToolCall list option"

text \<open>
  The state of a turn: what the provider will answer to the calls still to come (a reply,
  or the message of the error it throws; nothing left is an error as well), the number of
  provider calls made, and the state of the tool registry. The replies do not depend on
  the prompt in this model, so every behaviour of the provider is one of its scripts.
\<close>

record 'w Turn =
  provider_script :: "(string + LLMResponse) list"
  provider_calls :: nat
  registry :: 'w

definition generate :: "'w Turn \<Rightarrow> (js_error + LLMResponse) \<times> 'w Turn" where
  "generate st =
     (case provider_script st of
        [] \<Rightarrow> (Inl (ProviderError ''no reply''), st\<lparr>provider_calls := Suc (provider_calls st)\<rparr>)
      | reply # rest \<Rightarrow>
          ((case reply of Inl msg \<Rightarrow> Inl (ProviderError msg) | Inr r \<Rightarrow> Inr r),
           st\<lparr>provider_script := rest, provider_calls := Suc (provider_calls st)\<rparr>))"

text \<open>\<open>ToolRegistry.findCustomTool\<close>, for a name of any type.\<close>

definition findCustomTool :: "json \<Rightarrow> AgentConfig \<Rightarrow> CustomTool option" where
  "findCustomTool toolName cfg =
     (case custom (tools cfg) of
        None \<Rightarrow> None
      | Some ts \<Rightarrow>
          (case find (\<lambda>t. case ct_name t of None \<Rightarrow> False | Some n \<Rightarrow> JStr n = toolName) ts of
             None \<Rightarrow> None
           | Some foundTool \<Rightarrow>
               if ct_enabled foundTool \<noteq> Some (JBool True) then None else Some foundTool))"

subsection \<open>Inline actions: \<open>executeActionFromResponse\<close>\<close>

text \<open>
  The tool registry is a dependency of the orchestrator: \<open>exec\<close> stands for its
  \<open>executeTool\<close>, which takes the tool name, the arguments and the state of the registry
  and always returns a result. The history enters through \<open>lastSearchResults\<close> of the
  extracted context. The texts sent to the provider are not built, since the scripted
  provider does not read them.
\<close>

text \<open>
  The pre-filling of \<open>productId\<close> from the first product of the last search. A property
  cannot be created on a string, a number or a boolean (the modules run in strict mode); a
  named property set on an array, and a property set to \<open>undefined\<close>, leave the value
  as modelled unchanged.
\<close>

definition prefillProductId ::
  "Builtins \<Rightarrow> json \<Rightarrow> json list option \<Rightarrow> js_error + json" where
  "prefillProductId rt actionPayload lastSearchResults =
     (if \<not> truthy_opt (get_prop ''productId'' actionPayload)
         \<and> (case lastSearchResults of None \<Rightarrow> False | Some rs \<Rightarrow> length rs > 0)
      then
        (let firstProduct = hd (the lastSearchResults)
         in if firstProduct = JNull then Inl TypeError
            else
             (let idText = (case get_prop ''_id'' firstProduct of
                              None \<Rightarrow> None
                            | Some i \<Rightarrow> if i = JNull then None
                                        else Some (JStr (js_String (Number_toString rt) i)));
                  productId = or_opt idText (or_opt (get_prop ''id'' firstProduct)
                                                    (get_prop ''slug'' firstProduct))
              in case actionPayload of
                   JObj kvs \<Rightarrow>
                     (case productId of
                        None \<Rightarrow> Inr actionPayload
                      | Some v \<Rightarrow> Inr (JObj (set_entry ''productId'' v kvs)))
                 | JArr xs \<Rightarrow> Inr actionPayload
                 | _ \<Rightarrow> Inl TypeError))
      else Inr actionPayload)"

text \<open>\<open>path.match(/\{(\w+)\}/)\<close>: the name of the first placeholder made of word characters.\<close>

definition is_word_char :: "char \<Rightarrow> bool" where
  "is_word_char c =
     (let n = (of_char c :: nat)
      in (48 \<le> n \<and> n \<le> 57) \<or> (65 \<le> n \<and> n \<le> 90) \<or> (97 \<le> n \<and> n \<le> 122) \<or> c = CHR ''_'')"

fun pathParamMatch :: "string \<Rightarrow> string option" where
  "pathParamMatch [] = None"
| "pathParamMatch (c # cs) =
     (if c = CHR ''{'' \<and> takeWhile is_word_char cs \<noteq> []
         \<and> (case dropWhile is_word_char cs of [] \<Rightarrow> False | d # ds \<Rightarrow> d = CHR ''}'')
      then Some (takeWhile is_word_char cs)
      else pathParamMatch cs)"

text \<open>The payload handed to a custom tool named by the action.\<close>

definition mappedPayload :: "json \<Rightarrow> CustomTool \<Rightarrow> json" where
  "mappedPayload actionPayload customTool =
     (if truthy_opt (get_prop ''query'' actionPayload) \<and> truthy_str (ct_path customTool) then
        (case pathParamMatch (the (ct_path customTool)) of
           None \<Rightarrow> JObj (spread actionPayload)
         | Some paramName \<Rightarrow>
             if paramName \<noteq> ''query''
             then JObj (set_entry paramName (the (get_prop ''query'' actionPayload))
                          (spread actionPayload))
             else JObj (spread actionPayload))
      else JObj (spread actionPayload))"

text \<open>The outcome of the \<open>switch\<close>: an early return, or the result of the tool.\<close>

datatype dispatch = Return AgentResponse | Executed "json ToolResult"

definition dispatchAction ::
  "Builtins \<Rightarrow> (string \<Rightarrow> json \<Rightarrow> 'w \<Rightarrow> json ToolResult \<times> 'w) \<Rightarrow> AgentConfig
   \<Rightarrow> AgentResponse \<Rightarrow> json list option \<Rightarrow> 'w Turn \<Rightarrow> (js_error + dispatch) \<times> 'w Turn" where
  "dispatchAction rt exec cfg parsedResponse lastSearchResults st =
     (let actionType = the (get_prop ''type'' (ar_action parsedResponse));
          actionPayload = or_else (get_prop ''payload'' (ar_action parsedResponse)) (JObj []);
          run = (\<lambda>n args. (let (res, w) = exec n args (registry st)
                            in (Inr (Executed res), st\<lparr>registry := w\<rparr>)))
      in if actionType = JStr ''search_product'' then run ''search_product'' actionPayload
         else if actionType = JStr ''add_to_cart'' then
           (case prefillProductId rt actionPayload lastSearchResults of
              Inl e \<Rightarrow> (Inl e, st)
            | Inr args \<Rightarrow> run ''add_to_cart'' args)
         else if actionType = JStr ''show_product'' then
           (case prefillProductId rt actionPayload lastSearchResults of
              Inl e \<Rightarrow> (Inl e, st)
            | Inr args \<Rightarrow> run ''show_product'' args)
         else if actionType = JStr ''get_order'' then run ''get_order'' actionPayload
         else
           (case findCustomTool actionType cfg of
              Some customTool \<Rightarrow>
                run (js_String (Number_toString rt) actionType)
                    (mappedPayload actionPayload customTool)
            | None \<Rightarrow> (Inr (Return parsedResponse), st)))"

text \<open>The three responses that carry no action.\<close>

definition needsInputResponse :: "json ToolResult \<Rightarrow> AgentResponse \<Rightarrow> AgentResponse" where
  "needsInputResponse toolResult parsedResponse =
     \<lparr>ar_message =
        (if truthy_str (tr_question toolResult) then JStr (the (tr_question toolResult))
         else or_else (Some (ar_message parsedResponse))
                (JStr (''Necesito m'' @ a_acute @ ''s informaci'' @ o_acute
                       @ ''n para ayudarte.''))),
      ar_audio_description =
        JStr (audioOfText
               (if truthy_str (tr_question toolResult) then the (tr_question toolResult)
                else ''Necesito m'' @ a_acute @ ''s informaci'' @ o_acute @ ''n'')),
      ar_action = null_action\<rparr>"

definition failureResponse :: "Builtins \<Rightarrow> json ToolResult \<Rightarrow> json \<Rightarrow> AgentResponse" where
  "failureResponse rt toolResult actionType =
     \<lparr>ar_message =
        JStr (if truthy_str (tr_error toolResult) then the (tr_error toolResult)
              else ''No pude ejecutar la acci'' @ o_acute @ ''n ''
                   @ js_String (Number_toString rt) actionType
                   @ ''. Por favor, intenta de nuevo.''),
      ar_audio_description =
        JStr (audioOfText (''Error al ejecutar '' @ js_String (Number_toString rt) actionType)),
      ar_action = null_action\<rparr>"

definition errorResponse :: "AgentResponse \<Rightarrow> AgentResponse" where
  "errorResponse parsedResponse =
     \<lparr>ar_message = or_else (Some (ar_message parsedResponse))
                     (JStr (''Ocurri'' @ o_acute @ '' un error al procesar tu solicitud.'')),
      ar_audio_description = JStr (audioOfText ''Error al procesar''),
      ar_action = null_action\<rparr>"

text \<open>The lines of the product list and of the order summary.\<close>

definition productLine :: "Builtins \<Rightarrow> nat \<Rightarrow> json \<Rightarrow> js_error + string" where
  "productLine rt idx p =
     (if p = JNull then Inl TypeError
      else
       (let pr = (case get_prop ''price'' p of
                    None \<Rightarrow> None
                  | Some v \<Rightarrow> if v = JNull then None else Some v);
            price = or_else (opt_chain ''regular'' pr)
                      (or_else (opt_chain ''sale'' pr)
                         (or_else (get_prop ''price'' p) (JStr ''N/A'')));
            priceStr = (case price of
                          JNum n \<Rightarrow> ''S/ '' @ Number_toFixed rt 2 n
                        | _ \<Rightarrow> js_String (Number_toString rt) price);
            title = or_else (get_prop ''title'' p)
                      (or_else (get_prop ''name'' p) (JStr ''Producto sin nombre''))
        in Inr (index_key (idx + 1) @ ''. '' @ js_String (Number_toString rt) title
                @ '' - '' @ priceStr)))"

fun collect :: "(js_error + string) list \<Rightarrow> js_error + string list" where
  "collect [] = Inr []"
| "collect (x # xs) =
     (case x of
        Inl e \<Rightarrow> Inl e
      | Inr s \<Rightarrow> (case collect xs of Inl e \<Rightarrow> Inl e | Inr ss \<Rightarrow> Inr (s # ss)))"

definition indexed :: "'a list \<Rightarrow> (nat \<times> 'a) list" where
  "indexed xs = zip [0..<length xs] xs"

definition newline :: string where
  "newline = [CHR 0x0A]"

text \<open>\<open>`${count - 5}`\<close>.\<close>

definition minus_text :: "Builtins \<Rightarrow> json option \<Rightarrow> real \<Rightarrow> string" where
  "minus_text rt v n =
     (case (case v of None \<Rightarrow> None | Some w \<Rightarrow> toNumber rt w) of
        None \<Rightarrow> ''NaN''
      | Some x \<Rightarrow> Number_toString rt (x - n))"

definition searchResponse ::
  "Builtins \<Rightarrow> json \<Rightarrow> json \<Rightarrow> js_error + json \<times> json" where
  "searchResponse rt actionPayload toolData =
     (let products = or_else (get_prop ''products'' toolData) (JArr []);
          count = or_opt (get_prop ''count'' toolData) (js_length products);
          query = or_else (get_prop ''query'' actionPayload) (JStr [])
      in if gt_number rt count 0 then
           (case products of
              JArr ps \<Rightarrow>
                (case collect (map (\<lambda>(idx, p). productLine rt idx p) (indexed (take 5 ps))) of
                   Inl e \<Rightarrow> Inl e
                 | Inr ls \<Rightarrow>
                     Inr (JStr (''Encontr'' @ e_acute @ '' '' @ str_of rt count @ '' producto''
                                @ (if gt_number rt count 1 then ''s'' else [])
                                @ '':'' @ newline @ newline @ join newline ls
                                @ (if gt_number rt count 5
                                   then newline @ newline @ ''... y '' @ minus_text rt count 5
                                        @ '' m'' @ a_acute @ ''s.''
                                   else [])),
                          mk_action (JStr ''search_product'')
                            (Some (JObj ((''query'', query) # (''products'', products)
                                         # (case count of
                                              None \<Rightarrow> []
                                            | Some c \<Rightarrow> [(''count'', c)]))))))
            | _ \<Rightarrow> Inl TypeError)
         else
           Inr (JStr (''No encontr'' @ e_acute @ '' productos que coincidan con '' @ dquote
                      @ js_String (Number_toString rt)
                          (or_else (get_prop ''query'' actionPayload)
                             (JStr (''tu b'' @ u_acute @ ''squeda'')))
                      @ dquote @ ''. '' @ inv_question @ ''Podr'' @ i_acute @ ''as ser m''
                      @ a_acute @ ''s espec'' @ i_acute @ ''fico?''),
                mk_action (JStr ''search_product'')
                  (Some (JObj [(''query'', query), (''products'', JArr []),
                               (''count'', JNum 0)]))))"

definition orderLine :: "Builtins \<Rightarrow> nat \<Rightarrow> json \<Rightarrow> js_error + string" where
  "orderLine rt idx p =
     (if p = JNull then Inl TypeError
      else Inr (index_key (idx + 1) @ ''. '' @ str_of rt (get_prop ''title'' p)
                @ '' (x'' @ str_of rt (get_prop ''qty'' p) @ '') - S/ ''
                @ str_of rt (get_prop ''valid_price'' p)))"

definition status_text :: "Builtins \<Rightarrow> json option \<Rightarrow> string" where
  "status_text rt status =
     js_String (Number_toString rt)
       (or_else (opt_chain ''typeStatus''
                   (case status of
                      None \<Rightarrow> None
                    | Some s \<Rightarrow> if s = JNull then None else Some s))
          (JStr ''N/A''))"

definition orderResponse :: "Builtins \<Rightarrow> json \<Rightarrow> js_error + json \<times> json" where
  "orderResponse rt orderData =
     (let listed =
            (case get_prop ''products'' orderData of
               None \<Rightarrow> Inr []
             | Some JNull \<Rightarrow> Inr []
             | Some (JArr ps) \<Rightarrow>
                 (case collect (map (\<lambda>(idx, p). orderLine rt idx p) (indexed ps)) of
                    Inl e \<Rightarrow> Inl e
                  | Inr ls \<Rightarrow> Inr (join newline ls))
             | Some other \<Rightarrow> Inl TypeError)
      in case listed of
           Inl e \<Rightarrow> Inl e
         | Inr l \<Rightarrow>
             Inr (JStr (''Orden #'' @ str_of rt (get_prop ''orderNumber'' orderData)
                        @ newline @ newline @ ''Productos:'' @ newline
                        @ (if l = [] then ''Sin productos'' else l)
                        @ newline @ newline
                        @ ''Total: '' @ str_of rt (get_prop ''currency'' orderData) @ '' ''
                        @ str_of rt (get_prop ''total'' orderData) @ newline
                        @ ''Estado: '' @ status_text rt (get_prop ''orderStatus'' orderData)
                        @ newline
                        @ ''Pago: '' @ status_text rt (get_prop ''paymentStatus'' orderData)),
                  mk_action (JStr ''get_order'') (Some orderData)))"

text \<open>
  \<open>generateResponseFromCustomTool\<close>: one more provider call, whose reply is parsed.
\<close>

definition generateResponseFromCustomTool ::
  "Builtins \<Rightarrow> 'w Turn \<Rightarrow> (js_error + AgentResponse) \<times> 'w Turn" where
  "generateResponseFromCustomTool rt st =
     (case generate st of
        (Inl e, st1) \<Rightarrow> (Inl e, st1)
      | (Inr llmResponse, st1) \<Rightarrow>
          (case parseLLMResponse rt (lr_content llmResponse) of
             Inl e \<Rightarrow> (Inl e, st1)
           | Inr parsedResponse \<Rightarrow>
               (case (if truthy (ar_audio_description parsedResponse)
                      then Inr (ar_audio_description parsedResponse)
                      else generateAudioDescription rt (ar_message parsedResponse) None) of
                  Inl e \<Rightarrow> (Inl e, st1)
                | Inr audio \<Rightarrow>
                    (Inr \<lparr>ar_message = ar_message parsedResponse,
                          ar_audio_description = audio,
                          ar_action = or_else (Some (ar_action parsedResponse)) null_action\<rparr>,
                     st1))))"

text \<open>The branch \<open>if (toolResult && toolResult.success)\<close>.\<close>

definition shaped :: "Builtins \<Rightarrow> json \<Rightarrow> json \<Rightarrow> js_error + AgentResponse" where
  "shaped rt msg act =
     (case generateAudioDescription rt msg (Some act) of
        Inl e \<Rightarrow> Inl e
      | Inr audio \<Rightarrow> Inr \<lparr>ar_message = msg, ar_audio_description = audio, ar_action = act\<rparr>)"

definition successResponse ::
  "Builtins \<Rightarrow> AgentResponse \<Rightarrow> json \<Rightarrow> json \<Rightarrow> json ToolResult \<Rightarrow> 'w Turn
   \<Rightarrow> (js_error + AgentResponse) \<times> 'w Turn" where
  "successResponse rt parsedResponse actionType actionPayload toolResult st =
     (let hasData = truthy_opt (tr_data toolResult)
      in if actionType = JStr ''search_product'' \<and> hasData then
           (case searchResponse rt actionPayload (the (tr_data toolResult)) of
              Inl e \<Rightarrow> (Inl e, st)
            | Inr (msg, act) \<Rightarrow> (shaped rt msg act, st))
         else if actionType = JStr ''show_product'' \<and> hasData then
           (shaped rt (ar_message parsedResponse)
              (mk_action (JStr ''show_product'') (tr_data toolResult)), st)
         else if actionType = JStr ''add_to_cart'' \<and> hasData then
           (shaped rt (or_else (get_prop ''message'' (the (tr_data toolResult)))
                         (ar_message parsedResponse))
              (mk_action (JStr ''add_to_cart'') (tr_data toolResult)), st)
         else if actionType = JStr ''get_order'' \<and> hasData then
           (case orderResponse rt (the (tr_data toolResult)) of
              Inl e \<Rightarrow> (Inl e, st)
            | Inr (msg, act) \<Rightarrow> (shaped rt msg act, st))
         else
           (case generateResponseFromCustomTool rt st of
              (Inl e, st1) \<Rightarrow> (Inl e, st1)
            | (Inr customToolResponse, st1) \<Rightarrow>
                (Inr \<lparr>ar_message = ar_message customToolResponse,
                      ar_audio_description = ar_audio_description customToolResponse,
                      ar_action = mk_action actionType
                                    (Some (or_else (tr_data toolResult) (JObj [])))\<rparr>,
                 st1)))"

text \<open>The body of the \<open>try\<close> block, and \<open>executeActionFromResponse\<close> with its \<open>catch\<close>.\<close>

definition actionBody ::
  "Builtins \<Rightarrow> (string \<Rightarrow> json \<Rightarrow> 'w \<Rightarrow> json ToolResult \<times> 'w) \<Rightarrow> AgentConfig
   \<Rightarrow> AgentResponse \<Rightarrow> json list option \<Rightarrow> 'w Turn
   \<Rightarrow> (js_error + AgentResponse) \<times> 'w Turn" where
  "actionBody rt exec cfg parsedResponse lastSearchResults st =
     (let actionType = the (get_prop ''type'' (ar_action parsedResponse));
          actionPayload = or_else (get_prop ''payload'' (ar_action parsedResponse)) (JObj [])
      in case dispatchAction rt exec cfg parsedResponse lastSearchResults st of
           (Inl e, st1) \<Rightarrow> (Inl e, st1)
         | (Inr (Return response), st1) \<Rightarrow> (Inr response, st1)
         | (Inr (Executed toolResult), st1) \<Rightarrow>
             if tr_needsUserInput toolResult = Some True then
               (Inr (needsInputResponse toolResult parsedResponse), st1)
             else if tr_success toolResult then
               successResponse rt parsedResponse actionType actionPayload toolResult st1
             else (Inr (failureResponse rt toolResult actionType), st1))"

definition executeActionFromResponse ::
  "Builtins \<Rightarrow> (string \<Rightarrow> json \<Rightarrow> 'w \<Rightarrow> json ToolResult \<times> 'w) \<Rightarrow> AgentConfig
   \<Rightarrow> AgentResponse \<Rightarrow> json list option \<Rightarrow> 'w Turn \<Rightarrow> AgentResponse \<times> 'w Turn" where
  "executeActionFromResponse rt exec cfg parsedResponse lastSearchResults st =
     (case actionBody rt exec cfg parsedResponse lastSearchResults st of
        (Inr response, st1) \<Rightarrow> (response, st1)
      | (Inl e, st1) \<Rightarrow> (errorResponse parsedResponse, st1))"

subsection \<open>Tool calls: \<open>generateResponseFromToolResults\<close>\<close>

text \<open>The loop of \<open>processMessage\<close> over the tool calls of the model.\<close>

fun runToolCalls ::
  "(string \<Rightarrow> json \<Rightarrow> 'w \<Rightarrow> json ToolResult \<times> 'w) \<Rightarrow> ToolCall list \<Rightarrow> 'w
   \<Rightarrow> (string \<times> json ToolResult) list \<times> 'w" where
  "runToolCalls exec [] w = ([], w)"
| "runToolCalls exec (toolCall # calls) w =
     (let (toolResult, w1) = exec (tc_name toolCall) (tc_arguments toolCall) w;
          (results, w2) = runToolCalls exec calls w1
      in ((tc_name toolCall, toolResult) # results, w2))"

text \<open>The action that a successful tool leaves, in the loop over the results.\<close>

definition toolAction :: "string \<Rightarrow> json ToolResult \<Rightarrow> json" where
  "toolAction tool toolResult =
     (if tool = ''search_product'' then
        mk_action (JStr ''search_product'')
          (Some (JObj [(''query'', or_else (opt_chain ''query'' (tr_data toolResult)) (JStr [])),
                       (''products'', or_else (opt_chain ''products'' (tr_data toolResult))
                                        (JArr [])),
                       (''count'', or_else (opt_chain ''count'' (tr_data toolResult))
                                     (JNum 0))]))
      else if tool = ''add_to_cart'' then mk_action (JStr ''add_to_cart'') (tr_data toolResult)
      else if tool = ''show_product'' then mk_action (JStr ''show_product'') (tr_data toolResult)
      else if tool = ''get_order'' then mk_action (JStr ''get_order'') (tr_data toolResult)
      else mk_action (JStr tool) (Some (or_else (tr_data toolResult) (JObj []))))"

definition actionOfResults :: "json \<Rightarrow> (string \<times> json ToolResult) list \<Rightarrow> json" where
  "actionOfResults initial toolResults =
     foldl (\<lambda>act (tool, toolResult). if tr_success toolResult then toolAction tool toolResult
                                       else act)
       initial toolResults"

definition generateResponseFromToolResults ::
  "Builtins \<Rightarrow> (string \<times> json ToolResult) list \<Rightarrow> 'w Turn
   \<Rightarrow> (js_error + AgentResponse) \<times> 'w Turn" where
  "generateResponseFromToolResults rt toolResults st =
     (case generate st of
        (Inl e, st1) \<Rightarrow> (Inl e, st1)
      | (Inr followUpResponse, st1) \<Rightarrow>
          (case parseLLMResponse rt (lr_content followUpResponse) of
             Inl e \<Rightarrow> (Inl e, st1)
           | Inr parsedResponse \<Rightarrow>
               (let act = actionOfResults
                            (or_else (Some (ar_action parsedResponse)) null_action) toolResults
                in case (if truthy (ar_audio_description parsedResponse)
                         then Inr (ar_audio_description parsedResponse)
                         else generateAudioDescription rt (ar_message parsedResponse)
                                (Some act)) of
                     Inl e \<Rightarrow> (Inl e, st1)
                   | Inr audio \<Rightarrow>
                       (Inr \<lparr>ar_message = ar_message parsedResponse,
                             ar_audio_description = audio, ar_action = act\<rparr>,
                        st1))))"

subsection \<open>\<open>processMessage\<close>\<close>

text \<open>
  The turn from the loaded configuration to the shaped response. The metadata, the
  conversation id and the persistence, which follow, leave \<open>message\<close>,
  \<open>audio_description\<close> and \<open>action\<close> as they are, and make no provider call.
\<close>

definition processMessage ::
  "Builtins \<Rightarrow> (string \<Rightarrow> json \<Rightarrow> 'w \<Rightarrow> json ToolResult \<times> 'w) \<Rightarrow> AgentConfig option
   \<Rightarrow> json list option \<Rightarrow> 'w Turn \<Rightarrow> (js_error + AgentResponse) \<times> 'w Turn" where
  "processMessage rt exec loadedConfig lastSearchResults st =
     (case loadedConfig of
        None \<Rightarrow> (Inl (ConfigNotFound ''Agent config not found for tenant''), st)
      | Some cfg \<Rightarrow>
          (case generate st of
             (Inl e, st1) \<Rightarrow> (Inl e, st1)
           | (Inr llmResponse, st1) \<Rightarrow>
               if (case lr_toolCalls llmResponse of None \<Rightarrow> False | Some cs \<Rightarrow> length cs > 0)
               then
                 (let (toolResults, w) =
                        runToolCalls exec (the (lr_toolCalls llmResponse)) (registry st1)
                  in generateResponseFromToolResults rt toolResults (st1\<lparr>registry := w\<rparr>))
               else
                 (case parseLLMResponse rt (lr_content llmResponse) of
                    Inl e \<Rightarrow> (Inl e, st1)
                  | Inr parsedResponse \<Rightarrow>
                      if truthy_opt (get_prop ''type'' (ar_action parsedResponse)) then
                        (let (response, st2) =
                               executeActionFromResponse rt exec cfg parsedResponse
                                 lastSearchResults st1
                         in (Inr response, st2))
                      else (Inr parsedResponse, st1))))"

subsection \<open>The invariant of a response\<close>

text \<open>\<open>action.type == null\<close> implies \<open>action.payload\<close> is the empty object.\<close>

definition type_is_null :: "json \<Rightarrow> bool" where
  "type_is_null act = (get_prop ''type'' act = None \<or> get_prop ''type'' act = Some JNull)"

definition action_ok :: "json \<Rightarrow> bool" where
  "action_ok act = (type_is_null act \<longrightarrow> get_prop ''payload'' act = Some (JObj []))"

text \<open>The \<open>action\<close> that the reply of the model carries, when its JSON has one.\<close>

definition replyAction :: "Builtins \<Rightarrow> string \<Rightarrow> json option" where
  "replyAction rt content =
     (case match_braces content of
        None \<Rightarrow> None
      | Some jsonMatch \<Rightarrow>
          (case JSON_parse rt jsonMatch of
             None \<Rightarrow> None
           | Some parsed \<Rightarrow>
               (case get_prop ''action'' parsed of
                  None \<Rightarrow> None
                | Some a \<Rightarrow> if truthy a then Some a else None)))"

subsection \<open>Sample turns\<close>

text \<open>Two replies of the model, and a reply that asks for a tool and the one that follows it.\<close>

definition bad_reply :: string where
  \<open>bad_reply = ''{"message":"Hola","action":{"type":null,"payload":{"x":1}}}''\<close>

definition order_reply :: string where
  \<open>order_reply = ''{"message":"Un momento","action":{"type":"get_order","payload":{}}}''\<close>

text \<open>
  \<open>JSON.parse\<close> on the texts used below: the values of the two sample replies; any other
  text used below is not JSON.
\<close>

definition sample_parse :: "string \<Rightarrow> json option" where
  "sample_parse s =
     (if s = bad_reply then
        Some (JObj [(''message'', JStr ''Hola''),
                    (''action'', JObj [(''type'', JNull),
                                       (''payload'', JObj [(''x'', JNum 1)])])])
      else if s = order_reply then
        Some (JObj [(''message'', JStr ''Un momento''),
                    (''action'', JObj [(''type'', JStr ''get_order''),
                                       (''payload'', JObj [])])])
      else None)"

definition sample_rt :: Builtins where
  "sample_rt =
     \<lparr>JSON_parse = sample_parse, Number_toString = sample_numstr,
      String_toNumber = (\<lambda>s. None), Number_toFixed = (\<lambda>d n. ''0.00'')\<rparr>"

text \<open>
  A registry that holds the \<open>get_order\<close> tool only: \<open>executeTool\<close> runs \<open>getOrder\<close> on the
  string arguments of the call, and reports any other name as not found.
\<close>

definition str_arg :: "string \<Rightarrow> json \<Rightarrow> string option" where
  "str_arg k args = (case get_prop k args of Some (JStr s) \<Rightarrow> Some s | _ \<Rightarrow> None)"

definition order_json :: "OrderData \<Rightarrow> json" where
  "order_json d =
     JObj [(''orderNumber'', JStr (od_orderNumber d)),
           (''products'', JArr (map (\<lambda>p. JObj [(''title'', JStr (op_title p)),
                                               (''qty'', JNum (op_qty p)),
                                               (''valid_price'', JNum (op_valid_price p))])
                                  (od_products d))),
           (''total'', JNum (od_total d)),
           (''currency'', JStr (od_currency d)),
           (''paymentStatus'', JObj [(''typeStatus'', JStr (ps_typeStatus (od_paymentStatus d)))]),
           (''orderStatus'', JObj [(''typeStatus'', JStr (os_typeStatus (od_orderStatus d)))])]"

definition order_registry :: "ToolContext \<Rightarrow> string \<Rightarrow> json \<Rightarrow> World \<Rightarrow> json ToolResult \<times> World" where
  "order_registry ctx toolName args w =
     (if toolName = ''get_order'' then
        (let r = getOrder \<lparr>g_orderId = str_arg ''orderId'' args,
                           g_orderNumber = str_arg ''orderNumber'' args,
                           g_email = str_arg ''email'' args,
                           g_phone = str_arg ''phone'' args\<rparr> ctx w
         in (\<lparr>tr_success = tr_success r, tr_data = map_option order_json (tr_data r),
              tr_error = tr_error r, tr_needsUserInput = tr_needsUserInput r,
              tr_question = tr_question r\<rparr>, w))
      else (failed (''Tool not found: '' @ toolName), w))"

definition reply_text :: "string \<Rightarrow> LLMResponse" where
  "reply_text s = \<lparr>lr_content = s, lr_model = ''gpt-4o'', lr_tokens = None, lr_toolCalls = None\<rparr>"

definition reply_tool_call :: LLMResponse where
  "reply_tool_call =
     \<lparr>lr_content = [], lr_model = ''gpt-4o'', lr_tokens = None,
      lr_toolCalls = Some [\<lparr>tc_name = ''get_order'', tc_arguments = JObj []\<rparr>]\<rparr>"

definition narration :: string where
  "narration = ''No pude encontrar tu orden.''"

definition turn_with :: "LLMResponse list \<Rightarrow> World Turn" where
  "turn_with replies =
     \<lparr>provider_script = map Inr replies, provider_calls = 0, registry = cart_world\<rparr>"

definition sample_turn :: "LLMResponse list \<Rightarrow> (js_error + AgentResponse) \<times> World Turn" where
  "sample_turn replies =
     processMessage sample_rt (order_registry sample_ctx) (Some (agentConfig sample_ctx)) None
       (turn_with replies)"

text \<open>The parsed second sample reply, the clarifying response and the turn once it is over.\<close>

definition order_parsed :: AgentResponse where
  "order_parsed =
     \<lparr>ar_message = JStr ''Un momento'', ar_audio_description = JStr ''Un momento'',
      ar_action = JObj [(''type'', JStr ''get_order''), (''payload'', JObj [])]\<rparr>"

definition asked :: AgentResponse where
  "asked = \<lparr>ar_message = JStr question_missing,
            ar_audio_description = JStr question_missing, ar_action = null_action\<rparr>"

definition turn_after :: "nat \<Rightarrow> World Turn" where
  "turn_after n = \<lparr>provider_script = [], provider_calls = n, registry = cart_world\<rparr>"

section \<open>Properties of the advertised tools\<close>

lemma customToolDefinition_sound:
  assumes "d \<in> set (customToolDefinition t)"
  shows "ct_enabled t = Some (JBool True) \<and>
         (\<exists>n b. ct_name t = Some n \<and> n \<noteq> [] \<and> ct_baseUrl t = Some b \<and> b \<noteq> [] \<and> td_name d = n)"
  using assms
  by (auto simp: customToolDefinition_def Let_def truthy_str_def split: if_splits option.splits)

lemma tools_mode_cases:
  "tools_mode cfg = m \<Longrightarrow> m \<noteq> ''default'' \<Longrightarrow> mode (tools cfg) = Some m"
  by (auto simp: tools_mode_def split: option.splits if_splits)

lemma tools_mode_default:
  "tools_mode cfg = ''default'' \<Longrightarrow> mode (tools cfg) \<in> {None, Some [], Some ''default''}"
  by (auto simp: tools_mode_def split: option.splits if_splits)

lemma td_names [simp]:
  "td_name search_product_def = ''search_product''"
  "td_name add_to_cart_def = ''add_to_cart''"
  "td_name get_order_def = ''get_order''"
  "td_name show_product_def = ''show_product''"
  "td_name rag_query_def = ''rag_query''"
  by (simp_all add: search_product_def_def add_to_cart_def_def get_order_def_def
      show_product_def_def rag_query_def_def)

lemma coreToolDefinitions_sound:
  assumes "d \<in> set (coreToolDefinitions cfg)"
  shows "core_capability cfg (td_name d)"
proof -
  have "d = search_product_def \<and> tool_enabled (cfg_searchProduct (tools cfg))
      \<or> d = add_to_cart_def \<and> tool_enabled (cfg_addToCart (tools cfg))
      \<or> d = get_order_def \<and> tool_enabled (cfg_getOrder (tools cfg))
      \<or> d = show_product_def \<and> tool_enabled (cfg_searchProduct (tools cfg))
      \<or> d = rag_query_def \<and> (source_is_rag (companyInfo (knowledge cfg))
                                \<or> source_is_rag (products (knowledge cfg)))"
    using assms unfolding coreToolDefinitions_def
    by (simp split: if_splits) 
  then show ?thesis unfolding core_capability_def
    by (elim disjE conjE) simp_all
qed

lemma coreToolDefinitions_mode:
  assumes "d \<in> set (coreToolDefinitions cfg)"
  shows "mode (tools cfg) \<in> {None, Some [], Some ''default'', Some ''hybrid''}"
proof -
  have "tools_mode cfg = ''default'' \<or> tools_mode cfg = ''hybrid''"
    using assms by (rule_tac ccontr) (simp add: coreToolDefinitions_def)
  then show ?thesis using tools_mode_default [of cfg] tools_mode_cases [of cfg "''hybrid''"]
    by auto
qed

lemma customToolDefinitions_sound:
  assumes "d \<in> set (customToolDefinitions cfg)"
  shows "(mode (tools cfg) = Some ''custom'' \<or> mode (tools cfg) = Some ''hybrid'') \<and>
         (\<exists>ts t. custom (tools cfg) = Some ts \<and> t \<in> set ts \<and> ct_enabled t = Some (JBool True) \<and>
            (\<exists>n b. ct_name t = Some n \<and> n \<noteq> [] \<and> ct_baseUrl t = Some b \<and> b \<noteq> []
                   \<and> td_name d = n))"
proof -
  have m: "tools_mode cfg = ''custom'' \<or> tools_mode cfg = ''hybrid''"
    using assms by (rule_tac ccontr) (simp add: customToolDefinitions_def)
  then have m': "mode (tools cfg) = Some ''custom'' \<or> mode (tools cfg) = Some ''hybrid''"
    using tools_mode_cases [of cfg "''custom''"] tools_mode_cases [of cfg "''hybrid''"] by auto
  obtain ts where ts: "custom (tools cfg) = Some ts"
    and dc: "d \<in> set (concat (map customToolDefinition ts))"
    using assms m by (cases "custom (tools cfg)") (auto simp: customToolDefinitions_def)
  then obtain t where t: "t \<in> set ts" and d: "d \<in> set (customToolDefinition t)"
    by auto
  show ?thesis using m' ts t customToolDefinition_sound [OF d] by blast
qed

lemma mode_default_no_custom:
  "mode (tools cfg) = Some ''default'' \<Longrightarrow> customToolDefinitions cfg = []"
  by (simp add: customToolDefinitions_def tools_mode_def)

lemma mode_custom_no_core:
  "mode (tools cfg) = Some ''custom'' \<Longrightarrow> coreToolDefinitions cfg = []"
  by (simp add: coreToolDefinitions_def tools_mode_def)

text \<open>
  Claim C2, as amended. Every definition pushed by the custom block comes from a custom tool
  whose \<open>enabled\<close> is exactly \<open>true\<close> and whose \<open>name\<close> and \<open>baseUrl\<close> are present and
  not empty, and \<open>tools.mode\<close> is then \<open>custom\<close> or \<open>hybrid\<close>. Every definition pushed by
  the core block has its capability switched on (\<^const>\<open>core_capability\<close>), and
  \<open>tools.mode\<close> is then \<open>default\<close>, \<open>hybrid\<close>, or unset or empty, which the code reads
  as \<open>default\<close>. With \<open>mode = default\<close> the custom block pushes nothing, and with
  \<open>mode = custom\<close> the core block pushes nothing.
\<close>

theorem getToolDefinitions_gating:
  "(\<forall>d \<in> set (customToolDefinitions cfg).
      (mode (tools cfg) = Some ''custom'' \<or> mode (tools cfg) = Some ''hybrid'') \<and>
      (\<exists>ts t. custom (tools cfg) = Some ts \<and> t \<in> set ts \<and> ct_enabled t = Some (JBool True) \<and>
         (\<exists>n b. ct_name t = Some n \<and> n \<noteq> [] \<and> ct_baseUrl t = Some b \<and> b \<noteq> []
                \<and> td_name d = n)))
   \<and> (\<forall>d \<in> set (coreToolDefinitions cfg).
        mode (tools cfg) \<in> {None, Some [], Some ''default'', Some ''hybrid''}
        \<and> core_capability cfg (td_name d))
   \<and> (mode (tools cfg) = Some ''default''
        \<longrightarrow> customToolDefinitions cfg = [] \<and> getToolDefinitions cfg = coreToolDefinitions cfg)
   \<and> (mode (tools cfg) = Some ''custom''
        \<longrightarrow> coreToolDefinitions cfg = [] \<and> getToolDefinitions cfg = customToolDefinitions cfg)"
  using customToolDefinitions_sound [of _ cfg] coreToolDefinitions_sound [of _ cfg]
    coreToolDefinitions_mode [of _ cfg] mode_default_no_custom [of cfg] mode_custom_no_core [of cfg]
  by (simp add: getToolDefinitions_def)

lemma core_sample:
  "m = ''default'' \<or> m = ''hybrid''
   \<Longrightarrow> coreToolDefinitions (cfg_with_mode m) = [search_product_def, show_product_def]"
  by (auto simp: coreToolDefinitions_def cfg_with_mode_def tools_mode_def tool_enabled_def
      truthy_opt_def source_is_rag_def)

lemma custom_sample:
  "m = ''custom'' \<or> m = ''hybrid''
   \<Longrightarrow> map td_name (customToolDefinitions (cfg_with_mode m)) = [''get_student'']"
  by (auto simp: customToolDefinitions_def cfg_with_mode_def tools_mode_def
      customToolDefinition_def sample_custom_tool_def truthy_str_def truthy_opt_def)

theorem getToolDefinitions_gating_witness:
  "search_product_def \<in> set (coreToolDefinitions (cfg_with_mode ''hybrid''))
   \<and> core_capability (cfg_with_mode ''hybrid'') ''search_product''
   \<and> map td_name (customToolDefinitions (cfg_with_mode ''hybrid'')) = [''get_student'']
   \<and> custom (tools (cfg_with_mode ''hybrid'')) = Some [sample_custom_tool]
   \<and> ct_enabled sample_custom_tool = Some (JBool True)
   \<and> mode (tools (cfg_with_mode ''default'')) = Some ''default''
   \<and> getToolDefinitions (cfg_with_mode ''default'') = [search_product_def, show_product_def]
   \<and> mode (tools (cfg_with_mode ''custom'')) = Some ''custom''
   \<and> map td_name (getToolDefinitions (cfg_with_mode ''custom'')) = [''get_student'']"
proof -
  have core: "search_product_def \<in> set (coreToolDefinitions (cfg_with_mode ''hybrid''))"
    by (simp add: core_sample)
  have cap: "core_capability (cfg_with_mode ''hybrid'') ''search_product''"
    using getToolDefinitions_gating [of "cfg_with_mode ''hybrid''"] core by fastforce
  have md: "mode (tools (cfg_with_mode ''default'')) = Some ''default''"
    and mc: "mode (tools (cfg_with_mode ''custom'')) = Some ''custom''"
    by (simp_all add: cfg_with_mode_def)
  have dflt: "getToolDefinitions (cfg_with_mode ''default'') = [search_product_def, show_product_def]"
    using getToolDefinitions_gating [of "cfg_with_mode ''default''"] md
    by (simp add: core_sample)
  have cust: "map td_name (getToolDefinitions (cfg_with_mode ''custom'')) = [''get_student'']"
    using getToolDefinitions_gating [of "cfg_with_mode ''custom''"] mc
    by (simp add: custom_sample)
  show ?thesis
    using core cap dflt cust md mc
    by (simp add: custom_sample) (simp add: cfg_with_mode_def sample_custom_tool_def)
qed

text \<open>
  Claim C2 as stated fails: a configuration that leaves \<open>tools.mode\<close> unset, so that it is
  neither \<open>default\<close> nor \<open>hybrid\<close>, and enables product search is advertised the core
  tools \<open>search_product\<close> and \<open>show_product\<close>.
\<close>

theorem getToolDefinitions_mode_unset_counterexample:
  "mode (tools cfg_mode_unset) \<noteq> Some ''default'' \<and> mode (tools cfg_mode_unset) \<noteq> Some ''hybrid''
   \<and> getToolDefinitions cfg_mode_unset = [search_product_def, show_product_def]"
  by (simp add: getToolDefinitions_def coreToolDefinitions_def customToolDefinitions_def
      cfg_mode_unset_def tools_mode_def tool_enabled_def truthy_opt_def source_is_rag_def)

section \<open>Properties of the cart\<close>

lemma findIndex_Some:
  "findIndex P xs = Some i \<Longrightarrow> i < length xs \<and> P (xs ! i) \<and> (\<forall>j<i. \<not> P (xs ! j))"
proof (induction xs arbitrary: i)
  case Nil
  then show ?case by simp
next
  case (Cons x xs)
  show ?case
  proof (cases "P x")
    case True
    then show ?thesis using Cons.prems by simp
  next
    case False
    then obtain k where k: "findIndex P xs = Some k" and i: "i = Suc k"
      using Cons.prems by (auto split: option.splits)
    have ih: "k < length xs \<and> P (xs ! k) \<and> (\<forall>j<k. \<not> P (xs ! j))" using Cons.IH [OF k] .
    show ?thesis unfolding i using ih False
      by (auto simp: nth_Cons split: nat.splits)
  qed
qed

lemma findIndex_None: "findIndex P xs = None \<longleftrightarrow> (\<forall>x \<in> set xs. \<not> P x)"
  by (induction xs) (auto split: option.splits)

lemma findIndex_first:
  "i < length xs \<Longrightarrow> P (xs ! i) \<Longrightarrow> (\<forall>j<i. \<not> P (xs ! j)) \<Longrightarrow> findIndex P xs = Some i"
proof (induction xs arbitrary: i)
  case Nil
  then show ?case by simp
next
  case (Cons x xs)
  show ?case
  proof (cases i)
    case 0
    then show ?thesis using Cons.prems by simp
  next
    case (Suc k)
    have nx: "\<not> P x" using Cons.prems(3) Suc by auto
    have "findIndex P xs = Some k"
    proof (rule Cons.IH)
      show "k < length xs" using Cons.prems(1) Suc by simp
      show "P (xs ! k)" using Cons.prems(2) Suc by simp
      show "\<forall>j<k. \<not> P (xs ! j)" using Cons.prems(3) Suc by auto
    qed
    then show ?thesis using nx Suc by simp
  qed
qed

lemma lines_total_sum:
  "lines_total ps = sum_list (map (\<lambda>p. op_valid_price p * op_qty p) ps)"
proof -
  have "foldl (\<lambda>sum p. sum + op_valid_price p * op_qty p) a ps
        = a + sum_list (map (\<lambda>p. op_valid_price p * op_qty p) ps)" for a
    by (induction ps arbitrary: a) simp_all
  then show ?thesis by (simp add: lines_total_def)
qed

lemma mergeLine_index:
  assumes "ps' = mergeLine product pid q price ps"
  defines "i \<equiv> (case findIndex (same_product pid) ps of Some k \<Rightarrow> k | None \<Rightarrow> length ps)"
  shows "findIndex (same_product pid) ps' = Some i"
    and "op_valid_price (ps' ! i) = price"
    and "length ps' = (case findIndex (same_product pid) ps of Some k \<Rightarrow> length ps | None \<Rightarrow> Suc (length ps))"
proof -
  show "findIndex (same_product pid) ps' = Some i"
  proof (cases "findIndex (same_product pid) ps")
    case None
    then have no: "\<forall>x \<in> set ps. \<not> same_product pid x" by (simp add: findIndex_None)
    have ps': "ps' = ps @ [newLine product pid q price]" using assms(1) None by (simp add: mergeLine_def)
    have "findIndex (same_product pid) ps' = Some (length ps)"
    proof (rule findIndex_first)
      show "length ps < length ps'" by (simp add: ps')
      show "same_product pid (ps' ! length ps)" by (simp add: ps' same_product_def newLine_def)
      show "\<forall>j<length ps. \<not> same_product pid (ps' ! j)" using no by (simp add: ps' nth_append)
    qed
    then show ?thesis by (simp add: i_def None)
  next
    case (Some k)
    note fk = findIndex_Some [OF Some]
    have ps': "ps' = ps[k := (ps ! k)\<lparr>op_qty := op_qty (ps ! k) + q, op_valid_price := price\<rparr>]"
      using assms(1) Some by (simp add: mergeLine_def)
    have "findIndex (same_product pid) ps' = Some k"
    proof (rule findIndex_first)
      show "k < length ps'" using fk by (simp add: ps')
      show "same_product pid (ps' ! k)" using fk by (simp add: ps' same_product_def)
      show "\<forall>j<k. \<not> same_product pid (ps' ! j)" using fk by (simp add: ps')
    qed
    then show ?thesis by (simp add: i_def Some)
  qed
  show "op_valid_price (ps' ! i) = price"
  proof (cases "findIndex (same_product pid) ps")
    case None
    then show ?thesis using assms(1) by (simp add: i_def mergeLine_def newLine_def)
  next
    case (Some k)
    then show ?thesis using assms(1) findIndex_Some [OF Some] by (simp add: i_def mergeLine_def)
  qed
  show "length ps' = (case findIndex (same_product pid) ps of Some k \<Rightarrow> length ps | None \<Rightarrow> Suc (length ps))"
    using assms(1) by (simp add: mergeLine_def split: option.splits)
qed

lemma updateProducts_Some:
  assumes "ordersRepo_updateProducts w tenant num ps = (Some u, w')"
  shows "u \<in> set (w_orders w') \<and> o_products u = ps \<and> o_total u = lines_total ps
         \<and> o_domain u = tenant \<and> o_orderNumber u = num \<and> w_products w' = w_products w"
proof -
  obtain i where i: "findIndex (\<lambda>ord. o_domain ord = tenant \<and> o_orderNumber ord = num) (w_orders w) = Some i"
    using assms by (auto simp: ordersRepo_updateProducts_def Let_def split: option.splits)
  note fi = findIndex_Some [OF i]
  have u: "u = (w_orders w ! i)\<lparr>o_products := ps, o_total := lines_total ps, o_updatedAt := w_now w\<rparr>"
    and w': "w' = w\<lparr>w_orders := (w_orders w)[i := u]\<rparr>"
    using assms i by (auto simp: ordersRepo_updateProducts_def Let_def)
  have "u \<in> set (w_orders w')" using fi by (simp add: w' set_update_memI)
  then show ?thesis using fi by (simp add: u w')
qed






lemma failed_not_success: "\<not> tr_success (failed m)"
  by (simp add: failed_def)

text \<open>
  Claim C10. When \<open>add_to_cart\<close> succeeds, the line of the product in the stored cart (the
  first line whose \<open>productId\<close> or \<open>id\<close> is the product's id) carries as \<open>valid_price\<close>
  the sale price of the product when that is positive and its regular price otherwise; the
  total returned and stored is the sum of \<open>valid_price \<times> qty\<close> over the lines that were
  stored; and when the cart already held a line of the product, that line is overwritten in
  place with this price and the increased quantity.
\<close>

theorem addToCart_valid_price:
  assumes run: "addToCart args ctx w = (r, w')" and ok: "tr_success r"
  shows "\<exists>pid product d i.
      a_productId args = Some pid
    \<and> productsRepo_getById w (tenantId ctx) pid = Some product
    \<and> tr_data r = Some d
    \<and> findIndex (same_product (productIdStr_of product pid)) (cv_products (cd_cart d)) = Some i
    \<and> op_valid_price (cv_products (cd_cart d) ! i)
        = (if 0 < pp_sale (p_price product) then pp_sale (p_price product)
           else pp_regular (p_price product))
    \<and> cv_total (cd_cart d) = (\<Sum>p\<leftarrow>cv_products (cd_cart d). op_valid_price p * op_qty p)
    \<and> (\<exists>u \<in> set (w_orders w'). o_domain u = tenantId ctx
           \<and> o_orderNumber u = cv_orderNumber (cd_cart d)
           \<and> o_products u = cv_products (cd_cart d) \<and> o_total u = cv_total (cd_cart d))
    \<and> (\<forall>c k. ordersRepo_getActiveCart w (tenantId ctx) (userId ctx) = Some c
              \<and> findIndex (same_product (productIdStr_of product pid)) (o_products c) = Some k
         \<longrightarrow> i = k
           \<and> cv_products (cd_cart d) =
               (o_products c)[k := (o_products c ! k)
                  \<lparr>op_qty := op_qty (o_products c ! k)
                              + (case a_quantity args of None \<Rightarrow> 1 | Some q \<Rightarrow> q),
                   op_valid_price := (if 0 < pp_sale (p_price product)
                                      then pp_sale (p_price product)
                                      else pp_regular (p_price product))\<rparr>])"
proof -
  define quantity where "quantity = (case a_quantity args of None \<Rightarrow> 1 | Some q \<Rightarrow> q)"
  have t: "truthy_str (a_productId args)"
    using run ok by (auto simp: addToCart_def Let_def failed_not_success split: if_splits)
  then obtain pid where pid: "a_productId args = Some pid"
    by (auto simp: truthy_str_def split: option.splits)
  obtain product where prod: "productsRepo_getById w (tenantId ctx) pid = Some product"
    using run ok t pid
    by (cases "productsRepo_getById w (tenantId ctx) pid")
       (auto simp: addToCart_def Let_def failed_not_success)
  define key where "key = productIdStr_of product pid"
  define price where "price = getProductPrice product"
  obtain cart w1 where cw:
    "(case ordersRepo_getActiveCart w (tenantId ctx) (userId ctx) of
        Some c \<Rightarrow> (c, w)
      | None \<Rightarrow>
          (let (orderNumber, w0) = generateOrderNumber w
           in ordersRepo_create w0 (newCart w0 (tenantId ctx) (userId ctx) orderNumber)))
     = (cart, w1)"
    by (metis surj_pair)
  define ps where "ps = mergeLine product key quantity price (o_products cart)"
  obtain ou w2 where up:
    "ordersRepo_updateProducts w1 (tenantId ctx) (o_orderNumber cart) ps = (ou, w2)"
    by (metis surj_pair)
  have unfolded: "addToCart args ctx w =
      (case ou of
         None \<Rightarrow> (failed ''Failed to update cart'', w2)
       | Some u \<Rightarrow>
           (succeeded
              \<lparr>cd_message = ''Producto '' @ p_title product @ '' agregado al carrito'',
               cd_cart = \<lparr>cv_orderNumber = o_orderNumber cart, cv_products = ps,
                          cv_total = lines_total ps, cv_currency = o_currency cart\<rparr>\<rparr>,
            w2))"
    using t up
    by (cases ou)
       (simp_all add: addToCart_def Let_def pid prod cw ps_def key_def price_def quantity_def)
  obtain u where u: "ou = Some u"
    using run ok unfolded by (cases ou) (auto simp: failed_not_success)
  have upd: "ordersRepo_updateProducts w1 (tenantId ctx) (o_orderNumber cart) ps = (Some u, w')"
    using run unfolded u up by simp
  define d where "d = \<lparr>cd_message = ''Producto '' @ p_title product @ '' agregado al carrito'',
               cd_cart = \<lparr>cv_orderNumber = o_orderNumber cart, cv_products = ps,
                          cv_total = lines_total ps, cv_currency = o_currency cart\<rparr>\<rparr>"
  have r: "r = succeeded d" using run unfolded u by (simp add: d_def)
  note U = updateProducts_Some [OF upd]
  define i where "i = (case findIndex (same_product key) (o_products cart) of
                         Some k \<Rightarrow> k | None \<Rightarrow> length (o_products cart))"
  have idx: "findIndex (same_product key) ps = Some i"
    and vp: "op_valid_price (ps ! i) = price"
    using mergeLine_index(1,2) [OF ps_def] by (simp_all add: i_def)
  have merging: "i = k \<and> ps = (o_products c)[k := (o_products c ! k)
                  \<lparr>op_qty := op_qty (o_products c ! k) + quantity, op_valid_price := price\<rparr>]"
    if "ordersRepo_getActiveCart w (tenantId ctx) (userId ctx) = Some c"
      and "findIndex (same_product key) (o_products c) = Some k" for c k
  proof -
    have "cart = c" using that(1) cw by simp
    then show ?thesis using that(2) by (simp add: i_def ps_def mergeLine_def)
  qed
  have pr: "price = (if 0 < pp_sale (p_price product) then pp_sale (p_price product)
           else pp_regular (p_price product))"
    by (simp add: price_def getProductPrice_def)
  show ?thesis
  proof (intro exI [of _ pid] exI [of _ product] exI [of _ d] exI [of _ i] conjI)
    show "a_productId args = Some pid" by (rule pid)
    show "productsRepo_getById w (tenantId ctx) pid = Some product" by (rule prod)
    show "tr_data r = Some d" by (simp add: r succeeded_def)
    show "findIndex (same_product (productIdStr_of product pid)) (cv_products (cd_cart d)) = Some i"
      using idx by (simp add: d_def key_def)
    show "op_valid_price (cv_products (cd_cart d) ! i)
        = (if 0 < pp_sale (p_price product) then pp_sale (p_price product)
           else pp_regular (p_price product))"
      using vp pr by (simp add: d_def)
    show "cv_total (cd_cart d) = (\<Sum>p\<leftarrow>cv_products (cd_cart d). op_valid_price p * op_qty p)"
      by (simp add: d_def lines_total_sum)
    show "\<exists>u \<in> set (w_orders w'). o_domain u = tenantId ctx
           \<and> o_orderNumber u = cv_orderNumber (cd_cart d)
           \<and> o_products u = cv_products (cd_cart d) \<and> o_total u = cv_total (cd_cart d)"
      using U by (intro bexI [of _ u]) (simp_all add: d_def)
    show "\<forall>c k. ordersRepo_getActiveCart w (tenantId ctx) (userId ctx) = Some c
              \<and> findIndex (same_product (productIdStr_of product pid)) (o_products c) = Some k
         \<longrightarrow> i = k
           \<and> cv_products (cd_cart d) =
               (o_products c)[k := (o_products c ! k)
                  \<lparr>op_qty := op_qty (o_products c ! k)
                              + (case a_quantity args of None \<Rightarrow> 1 | Some q \<Rightarrow> q),
                   op_valid_price := (if 0 < pp_sale (p_price product)
                                      then pp_sale (p_price product)
                                      else pp_regular (p_price product))\<rparr>]"
      using merging by (simp add: d_def key_def flip: pr quantity_def)
  qed
qed


subsection \<open>The cart on the sample store\<close>


lemma cart_lookup: "productsRepo_getById cart_world (tenantId sample_ctx) ''mesa'' = Some sample_product"
  by (simp add: productsRepo_getById_def cart_world_def sample_world_def sample_product_def
      ObjectId_isValid_def sample_ctx_def)



theorem addToCart_valid_price_witness:
  "tr_success (fst (add_sample 3 cart_world))
   \<and> op_valid_price sample_line = 100
   \<and> (\<exists>d i. tr_data (fst (add_sample 3 cart_world)) = Some d
          \<and> findIndex (same_product (productIdStr_of sample_product ''mesa''))
                (cv_products (cd_cart d)) = Some i
          \<and> op_valid_price (cv_products (cd_cart d) ! i) = 80
          \<and> cv_total (cd_cart d) = (\<Sum>p\<leftarrow>cv_products (cd_cart d). op_valid_price p * op_qty p))"
proof -
  let ?args = "\<lparr>a_productId = Some ''mesa'', a_quantity = Some (3::real)\<rparr>"
  have run: "addToCart ?args sample_ctx cart_world
      = (fst (add_sample 3 cart_world), snd (add_sample 3 cart_world))"
    by (simp add: add_sample_def)
  have ok: "tr_success (fst (add_sample 3 cart_world))" by code_simp
  have stale: "op_valid_price sample_line = 100" by (simp add: sample_line_def)
  from addToCart_valid_price [OF run ok]
  obtain pid product d i where
    1: "a_productId ?args = Some pid"
    and 2: "productsRepo_getById cart_world (tenantId sample_ctx) pid = Some product"
    and 3: "tr_data (fst (add_sample 3 cart_world)) = Some d"
    and 4: "findIndex (same_product (productIdStr_of product pid)) (cv_products (cd_cart d)) = Some i"
    and 5: "op_valid_price (cv_products (cd_cart d) ! i)
        = (if 0 < pp_sale (p_price product) then pp_sale (p_price product)
           else pp_regular (p_price product))"
    and 6: "cv_total (cd_cart d) = (\<Sum>p\<leftarrow>cv_products (cd_cart d). op_valid_price p * op_qty p)"
    by (elim exE conjE)
  have pid: "pid = ''mesa''" using 1 by simp
  have product: "product = sample_product" using 2 cart_lookup by (simp add: pid)
  have price: "op_valid_price (cv_products (cd_cart d) ! i) = 80"
    using 5 by (simp add: product sample_product_def)
  show ?thesis using ok stale 3 4 price 6 unfolding pid product by blast
qed

section \<open>Properties of the order lookup\<close>

text \<open>
  Claim C4. When \<open>orderNumber\<close>, \<open>orderId\<close>, \<open>email\<close> and \<open>phone\<close> are all absent (or
  empty), \<open>get_order\<close> returns the result with \<open>needsUserInput = true\<close> and the canned
  question, which is not empty. When an identifying argument is given and the lookup it
  selects finds no order, the result again has \<open>needsUserInput = true\<close>, with the
  question that asks to check the data.
\<close>

theorem getOrder_needs_user_input:
  "(\<not> truthy_str (g_orderNumber args) \<and> \<not> truthy_str (g_orderId args)
      \<and> \<not> truthy_str (g_email args) \<and> \<not> truthy_str (g_phone args)
     \<longrightarrow> getOrder args ctx w =
           \<lparr>tr_success = False, tr_data = None,
            tr_error = Some ''Missing required information: orderNumber, orderId, email, or phone'',
            tr_needsUserInput = Some True, tr_question = Some question_missing\<rparr>)
   \<and> question_missing \<noteq> []
   \<and> ((truthy_str (g_orderNumber args)
          \<and> ordersRepo_getById w (tenantId ctx) (the (g_orderNumber args)) = None)
        \<or> (\<not> truthy_str (g_orderNumber args) \<and> truthy_str (g_orderId args)
          \<and> ordersRepo_getById w (tenantId ctx) (the (g_orderId args)) = None)
        \<or> (\<not> truthy_str (g_orderNumber args) \<and> \<not> truthy_str (g_orderId args)
          \<and> (truthy_str (g_email args) \<or> truthy_str (g_phone args))
          \<and> ordersRepo_getByUser w (tenantId ctx)
               (if truthy_str (g_email args) then the (g_email args) else the (g_phone args)) 1 = [])
     \<longrightarrow> getOrder args ctx w =
           \<lparr>tr_success = False, tr_data = None, tr_error = Some ''Order not found'',
            tr_needsUserInput = Some True, tr_question = Some question_not_found\<rparr>)
   \<and> question_not_found \<noteq> []"
proof (intro conjI impI)
  assume "\<not> truthy_str (g_orderNumber args) \<and> \<not> truthy_str (g_orderId args)
      \<and> \<not> truthy_str (g_email args) \<and> \<not> truthy_str (g_phone args)"
  then have "lookupOrder args ctx w = None" by (simp add: lookupOrder_def)
  then show "getOrder args ctx w =
           \<lparr>tr_success = False, tr_data = None,
            tr_error = Some ''Missing required information: orderNumber, orderId, email, or phone'',
            tr_needsUserInput = Some True, tr_question = Some question_missing\<rparr>"
    by (simp add: getOrder_def asks_user_def)
next
  show "question_missing \<noteq> []" by (simp add: question_missing_def)
next
  assume "(truthy_str (g_orderNumber args)
          \<and> ordersRepo_getById w (tenantId ctx) (the (g_orderNumber args)) = None)
        \<or> (\<not> truthy_str (g_orderNumber args) \<and> truthy_str (g_orderId args)
          \<and> ordersRepo_getById w (tenantId ctx) (the (g_orderId args)) = None)
        \<or> (\<not> truthy_str (g_orderNumber args) \<and> \<not> truthy_str (g_orderId args)
          \<and> (truthy_str (g_email args) \<or> truthy_str (g_phone args))
          \<and> ordersRepo_getByUser w (tenantId ctx)
               (if truthy_str (g_email args) then the (g_email args) else the (g_phone args)) 1 = [])"
  then have "lookupOrder args ctx w = Some None"
    by (elim disjE conjE) (simp_all add: lookupOrder_def Let_def)
  then show "getOrder args ctx w =
           \<lparr>tr_success = False, tr_data = None, tr_error = Some ''Order not found'',
            tr_needsUserInput = Some True, tr_question = Some question_not_found\<rparr>"
    by (simp add: getOrder_def asks_user_def)
next
  show "question_not_found \<noteq> []" by (simp add: question_not_found_def)
qed

theorem getOrder_needs_user_input_witness:
  "\<not> truthy_str (g_orderNumber no_identifier) \<and> \<not> truthy_str (g_orderId no_identifier)
   \<and> \<not> truthy_str (g_email no_identifier) \<and> \<not> truthy_str (g_phone no_identifier)
   \<and> tr_needsUserInput (getOrder no_identifier sample_ctx cart_world) = Some True
   \<and> tr_question (getOrder no_identifier sample_ctx cart_world) = Some question_missing
   \<and> truthy_str (g_email unknown_email)
   \<and> ordersRepo_getByUser cart_world (tenantId sample_ctx) ''nobody@example.com'' 1 = []
   \<and> tr_needsUserInput (getOrder unknown_email sample_ctx cart_world) = Some True
   \<and> tr_question (getOrder unknown_email sample_ctx cart_world) = Some question_not_found"
proof -
  have a: "\<not> truthy_str (g_orderNumber no_identifier) \<and> \<not> truthy_str (g_orderId no_identifier)
   \<and> \<not> truthy_str (g_email no_identifier) \<and> \<not> truthy_str (g_phone no_identifier)"
    by (simp add: no_identifier_def truthy_str_def)
  have b: "getOrder no_identifier sample_ctx cart_world =
           \<lparr>tr_success = False, tr_data = None,
            tr_error = Some ''Missing required information: orderNumber, orderId, email, or phone'',
            tr_needsUserInput = Some True, tr_question = Some question_missing\<rparr>"
    using getOrder_needs_user_input [of no_identifier sample_ctx cart_world] a by blast
  have c: "\<not> truthy_str (g_orderNumber unknown_email)" "\<not> truthy_str (g_orderId unknown_email)"
    "truthy_str (g_email unknown_email)" "the (g_email unknown_email) = ''nobody@example.com''"
    by (simp_all add: unknown_email_def truthy_str_def)
  have d: "ordersRepo_getByUser cart_world (tenantId sample_ctx) ''nobody@example.com'' 1 = []"
    by (simp add: ordersRepo_getByUser_def cart_world_def sample_world_def sample_cart_def
        defaultClientInfo_def mongo_limit_def sample_ctx_def)
  have e: "getOrder unknown_email sample_ctx cart_world =
           \<lparr>tr_success = False, tr_data = None, tr_error = Some ''Order not found'',
            tr_needsUserInput = Some True, tr_question = Some question_not_found\<rparr>"
    using getOrder_needs_user_input [of unknown_email sample_ctx cart_world] c d by simp
  show ?thesis using a b c d e by simp
qed

section \<open>Properties of custom tool requests\<close>




lemma find_sub_here: "find_sub (c # p) ((c # p) @ t) = Some ([], t)"
  by simp








lemma holes_fill:
  "set (holes (map (fill_segment f) T)) \<subseteq> set (holes T)"
  by (induction T) (auto simp: holes_def fill_segment_def split: segment.splits option.splits)













section \<open>Properties of the product search\<close>

lemma trim_Nil [simp]: "trim [] = []" by (simp add: trim_def)

lemma star_trim: "trim ''*'' = ''*''" by (simp add: trim_def is_white_space_def)









section \<open>Properties of the cost estimate\<close>












section \<open>Properties of the orchestrator\<close>

lemma generateAudioDescription_text:
  "generateAudioDescription rt (JStr s) None = Inr (JStr (audioOfText s))"
  by (simp add: generateAudioDescription_def js_length_def gt_number_def toNumber_def
      audioOfText_def opt_chain_def truthy_opt_def Let_def)

lemma plainResponse_eq:
  "plainResponse rt content =
     Inr \<lparr>ar_message = JStr content, ar_audio_description = JStr (audioOfText content),
          ar_action = null_action\<rparr>"
  by (simp add: plainResponse_def generateAudioDescription_text)

lemma match_braces_None:
  "match_braces content = None
   \<longleftrightarrow> \<not> (\<exists>a b c. content = a @ [CHR ''{''] @ b @ [CHR ''}''] @ c)"
proof -
  let ?open = "dropWhile (\<lambda>c. c \<noteq> CHR ''{'') content"
  have none: "match_braces content = None \<longleftrightarrow> CHR ''}'' \<notin> set ?open"
  proof -
    have "match_braces content = None
        \<longleftrightarrow> dropWhile (\<lambda>c. c \<noteq> CHR ''}'') (rev ?open) = []"
      by (simp add: match_braces_def Let_def)
    also have "\<dots> \<longleftrightarrow> (\<forall>x \<in> set (rev ?open). x \<noteq> CHR ''}'')"
      by (simp add: dropWhile_eq_Nil_conv)
    finally show ?thesis by auto
  qed
  have split: "content = takeWhile (\<lambda>c. c \<noteq> CHR ''{'') content @ ?open" by simp
  show ?thesis
  proof
    assume n: "match_braces content = None"
    show "\<not> (\<exists>a b c. content = a @ [CHR ''{''] @ b @ [CHR ''}''] @ c)"
    proof
      assume "\<exists>a b c. content = a @ [CHR ''{''] @ b @ [CHR ''}''] @ c"
      then obtain a b c where c: "content = a @ [CHR ''{''] @ b @ [CHR ''}''] @ c" by blast
      have "CHR ''{'' \<in> set content" by (simp add: c)
      then obtain pre post where pp: "content = pre @ CHR ''{'' # post" "CHR ''{'' \<notin> set pre"
        by (meson split_list_first)
      have op: "?open = CHR ''{'' # post"
        using pp by (auto simp: dropWhile_append3)
      have "length pre \<le> length a"
      proof (rule ccontr)
        assume "\<not> length pre \<le> length a"
        then have "length a < length pre" by simp
        then have "pre ! length a = content ! length a" by (simp add: pp(1) nth_append)
        also have "\<dots> = CHR ''{''" by (simp add: c nth_append)
        finally have "CHR ''{'' \<in> set pre" using \<open>length a < length pre\<close> by (metis nth_mem)
        then show False using pp(2) by simp
      qed
      then have "set (drop (length a) content) \<subseteq> set (drop (length pre) content)"
        by (metis set_drop_subset_set_drop)
      moreover have "drop (length pre) content = ?open" using op pp(1) by simp
      moreover have "CHR ''}'' \<in> set (drop (length a) content)" by (simp add: c)
      ultimately have "CHR ''}'' \<in> set ?open" by auto
      then show False using n none by simp
    qed
  next
    assume no: "\<not> (\<exists>a b c. content = a @ [CHR ''{''] @ b @ [CHR ''}''] @ c)"
    show "match_braces content = None"
    proof (rule ccontr)
      assume "match_braces content \<noteq> None"
      then have cl: "CHR ''}'' \<in> set ?open" using none by simp
      then have ne: "?open \<noteq> []" by (metis empty_iff empty_set)
      then obtain x post where xp: "?open = x # post" by (meson list.exhaust)
      have "\<not> hd ?open \<noteq> CHR ''{''" by (rule hd_dropWhile [OF ne])
      then have "x = CHR ''{''" unfolding xp by simp
      then have op: "?open = CHR ''{'' # post" using xp by simp
      have "CHR ''}'' \<in> set post" using cl unfolding op by simp
      then obtain b c where "post = b @ CHR ''}'' # c" by (meson split_list)
      then have "content = takeWhile (\<lambda>c. c \<noteq> CHR ''{'') content @ [CHR ''{''] @ b @ [CHR ''}''] @ c"
        using split op by simp
      then show False using no by blast
    qed
  qed
qed

text \<open>
  Claim C8. \<open>parseLLMResponse\<close> returns a response for every reply text. When the text has
  no opening brace followed by a closing brace, or \<open>JSON.parse\<close> rejects the text between
  the first opening and the last closing brace, the response has the reply text as
  message, the audio description generated from it, and the action
  \<open>{type: null, payload: {}}\<close>.
\<close>

theorem parseLLMResponse_never_raises:
  "(\<exists>r. parseLLMResponse rt content = Inr r)
   \<and> (match_braces content = None
        \<or> (\<exists>m. match_braces content = Some m \<and> JSON_parse rt m = None)
       \<longrightarrow> parseLLMResponse rt content =
             Inr \<lparr>ar_message = JStr content,
                  ar_audio_description = JStr (audioOfText content),
                  ar_action = JObj [(''type'', JNull), (''payload'', JObj [])]\<rparr>)
   \<and> (match_braces content = None
        \<longleftrightarrow> \<not> (\<exists>a b c. content = a @ [CHR ''{''] @ b @ [CHR ''}''] @ c))"
proof (intro conjI impI)
  show "\<exists>r. parseLLMResponse rt content = Inr r"
    by (cases "parseBody rt content") (simp_all add: parseLLMResponse_def plainResponse_eq)
next
  assume "match_braces content = None
        \<or> (\<exists>m. match_braces content = Some m \<and> JSON_parse rt m = None)"
  then have "parseBody rt content = plainResponse rt content \<or> parseBody rt content = Inl SyntaxError"
    by (auto simp: parseBody_def)
  then show "parseLLMResponse rt content =
             Inr \<lparr>ar_message = JStr content,
                  ar_audio_description = JStr (audioOfText content),
                  ar_action = JObj [(''type'', JNull), (''payload'', JObj [])]\<rparr>"
    by (auto simp: parseLLMResponse_def plainResponse_eq null_action_def)
next
  show "match_braces content = None
        \<longleftrightarrow> \<not> (\<exists>a b c. content = a @ [CHR ''{''] @ b @ [CHR ''}''] @ c)"
    by (rule match_braces_None)
qed

theorem parseLLMResponse_never_raises_witness:
  "parseLLMResponse sample_rt ''Hola'' =
     Inr \<lparr>ar_message = JStr ''Hola'', ar_audio_description = JStr (audioOfText ''Hola''),
          ar_action = JObj [(''type'', JNull), (''payload'', JObj [])]\<rparr>
   \<and> match_braces ''Hola'' = None
   \<and> match_braces ''Hola {oops}'' = Some ''{oops}''
   \<and> JSON_parse sample_rt ''{oops}'' = None
   \<and> parseLLMResponse sample_rt ''Hola {oops}'' =
     Inr \<lparr>ar_message = JStr ''Hola {oops}'',
          ar_audio_description = JStr (audioOfText ''Hola {oops}''),
          ar_action = JObj [(''type'', JNull), (''payload'', JObj [])]\<rparr>"
proof -
  have none: "match_braces ''Hola'' = None"
    by code_simp
  have some: "match_braces ''Hola {oops}'' = Some ''{oops}''"
    by code_simp
  have rejects: "JSON_parse sample_rt ''{oops}'' = None"
    by code_simp
  from parseLLMResponse_never_raises [of sample_rt "''Hola''"] none
  have plain: "parseLLMResponse sample_rt ''Hola'' =
     Inr \<lparr>ar_message = JStr ''Hola'', ar_audio_description = JStr (audioOfText ''Hola''),
          ar_action = JObj [(''type'', JNull), (''payload'', JObj [])]\<rparr>"
    by simp
  from parseLLMResponse_never_raises [of sample_rt "''Hola {oops}''"] some rejects
  have broken: "parseLLMResponse sample_rt ''Hola {oops}'' =
     Inr \<lparr>ar_message = JStr ''Hola {oops}'',
          ar_audio_description = JStr (audioOfText ''Hola {oops}''),
          ar_action = JObj [(''type'', JNull), (''payload'', JObj [])]\<rparr>"
    by simp
  from none some rejects plain broken show ?thesis
    by simp
qed

lemma action_ok_null: "action_ok null_action"
  by (simp add: action_ok_def null_action_def)

lemma action_ok_mk: "t \<noteq> JNull \<Longrightarrow> action_ok (mk_action t p)"
  by (simp add: action_ok_def type_is_null_def mk_action_def)

lemma truthy_not_null: "truthy t \<Longrightarrow> t \<noteq> JNull"
  by auto

lemma action_ok_truthy_type: "truthy_opt (get_prop ''type'' a) \<Longrightarrow> action_ok a"
  by (auto simp: action_ok_def type_is_null_def truthy_opt_def split: option.splits)

lemma parse_action:
  assumes "parseLLMResponse rt content = Inr p"
  shows "ar_action p = null_action \<or> replyAction rt content = Some (ar_action p)"
proof (cases "parseBody rt content")
  case (Inl e)
  then have "plainResponse rt content = Inr p" using assms by (simp add: parseLLMResponse_def)
  then show ?thesis by (auto simp: plainResponse_def split: sum.splits)
next
  case (Inr q)
  then have q: "q = p" using assms by (simp add: parseLLMResponse_def)
  show ?thesis
  proof (cases "match_braces content")
    case None
    then have "plainResponse rt content = Inr p" using Inr q by (simp add: parseBody_def)
    then show ?thesis by (auto simp: plainResponse_def split: sum.splits)
  next
    case (Some m)
    then obtain parsed where parsed: "JSON_parse rt m = Some parsed"
      using Inr by (cases "JSON_parse rt m") (auto simp: parseBody_def)
    have "ar_action p = or_else (get_prop ''action'' parsed) null_action"
      using Inr q Some parsed
      by (auto simp: parseBody_def Let_def split: sum.splits if_splits)
    then show ?thesis
      by (auto simp: replyAction_def Some parsed or_else_def split: option.splits)
  qed
qed

lemma generate_Inr:
  assumes "generate st = (Inr r, st1)"
  shows "Inr r \<in> set (provider_script st) \<and> set (provider_script st1) \<subseteq> set (provider_script st)
         \<and> provider_calls st1 = Suc (provider_calls st) \<and> registry st1 = registry st"
  using assms by (auto simp: generate_def split: list.splits sum.splits)

lemma generate_calls:
  "provider_calls (snd (generate st)) = Suc (provider_calls st)"
  by (simp add: generate_def split: list.splits sum.splits)

lemma searchResponse_action:
  "searchResponse rt payload data = Inr (msg, act) \<Longrightarrow> action_ok act"
  by (auto simp: searchResponse_def Let_def action_ok_mk split: if_splits json.splits sum.splits)

lemma orderResponse_action:
  "orderResponse rt data = Inr (msg, act) \<Longrightarrow> action_ok act"
  by (auto simp: orderResponse_def Let_def action_ok_mk split: sum.splits)

lemma shaped_action:
  "shaped rt msg act = Inr r \<Longrightarrow> ar_action r = act"
  by (auto simp: shaped_def split: sum.splits)

lemma successResponse_action:
  assumes "successResponse rt parsed actionType payload toolResult st = (Inr r, st1)"
    and "truthy actionType"
  shows "action_ok (ar_action r)"
proof -
  let ?d = "truthy_opt (tr_data toolResult)"
  define is_search where "is_search \<longleftrightarrow> actionType = JStr ''search_product'' \<and> ?d"
  define is_show where "is_show \<longleftrightarrow> actionType = JStr ''show_product'' \<and> ?d"
  define is_add where "is_add \<longleftrightarrow> actionType = JStr ''add_to_cart'' \<and> ?d"
  define is_order where "is_order \<longleftrightarrow> actionType = JStr ''get_order'' \<and> ?d"
  note defs = is_search_def is_show_def is_add_def is_order_def
  have unfolded: "successResponse rt parsed actionType payload toolResult st =
      (if is_search then
           (case searchResponse rt payload (the (tr_data toolResult)) of
              Inl e \<Rightarrow> (Inl e, st)
            | Inr (msg, act) \<Rightarrow> (shaped rt msg act, st))
         else if is_show then
           (shaped rt (ar_message parsed)
              (mk_action (JStr ''show_product'') (tr_data toolResult)), st)
         else if is_add then
           (shaped rt (or_else (get_prop ''message'' (the (tr_data toolResult)))
                         (ar_message parsed))
              (mk_action (JStr ''add_to_cart'') (tr_data toolResult)), st)
         else if is_order then
           (case orderResponse rt (the (tr_data toolResult)) of
              Inl e \<Rightarrow> (Inl e, st)
            | Inr (msg, act) \<Rightarrow> (shaped rt msg act, st))
         else
           (case generateResponseFromCustomTool rt st of
              (Inl e, st1) \<Rightarrow> (Inl e, st1)
            | (Inr customToolResponse, st1) \<Rightarrow>
                (Inr \<lparr>ar_message = ar_message customToolResponse,
                      ar_audio_description = ar_audio_description customToolResponse,
                      ar_action = mk_action actionType
                                    (Some (or_else (tr_data toolResult) (JObj [])))\<rparr>,
                 st1)))"
    unfolding defs successResponse_def Let_def by (rule refl)
  consider (c_search) is_search
    | (c_show) "\<not> is_search" is_show
    | (c_add) "\<not> is_search" "\<not> is_show" is_add
    | (c_order) "\<not> is_search" "\<not> is_show" "\<not> is_add" is_order
    | (c_other) "\<not> is_search" "\<not> is_show" "\<not> is_add" "\<not> is_order"
    by blast
  then show ?thesis
  proof cases
    case c_search
    then obtain msg act where s: "searchResponse rt payload (the (tr_data toolResult)) = Inr (msg, act)"
      and r: "shaped rt msg act = Inr r"
      using assms(1) unfolding unfolded by (auto split: sum.splits)
    show ?thesis using searchResponse_action [OF s] shaped_action [OF r] by simp
  next
    case c_show
    then have "shaped rt (ar_message parsed) (mk_action (JStr ''show_product'') (tr_data toolResult)) = Inr r"
      using assms(1) unfolding unfolded by simp
    then have "ar_action r = mk_action (JStr ''show_product'') (tr_data toolResult)"
      by (rule shaped_action)
    then show ?thesis by (simp add: action_ok_mk)
  next
    case c_add
    then have "shaped rt (or_else (get_prop ''message'' (the (tr_data toolResult))) (ar_message parsed))
                 (mk_action (JStr ''add_to_cart'') (tr_data toolResult)) = Inr r"
      using assms(1) unfolding unfolded by simp
    then have "ar_action r = mk_action (JStr ''add_to_cart'') (tr_data toolResult)"
      by (rule shaped_action)
    then show ?thesis by (simp add: action_ok_mk)
  next
    case c_order
    then obtain msg act where s: "orderResponse rt (the (tr_data toolResult)) = Inr (msg, act)"
      and r: "shaped rt msg act = Inr r"
      using assms(1) unfolding unfolded by (auto split: sum.splits)
    show ?thesis using orderResponse_action [OF s] shaped_action [OF r] by simp
  next
    case c_other
    then have "ar_action r = mk_action actionType (Some (or_else (tr_data toolResult) (JObj [])))"
      using assms(1) unfolding unfolded
      by (auto split: sum.splits prod.splits)
    then show ?thesis using assms(2) by (simp add: action_ok_mk truthy_not_null)
  qed
qed

lemma actionBody_action:
  assumes "actionBody rt exec cfg parsed lsr st = (Inr r, st1)"
    and "truthy_opt (get_prop ''type'' (ar_action parsed))"
  shows "action_ok (ar_action r)"
proof -
  let ?t = "the (get_prop ''type'' (ar_action parsed))"
  have t: "truthy ?t" using assms(2) by (auto simp: truthy_opt_def split: option.splits)
  obtain d st0 where d: "dispatchAction rt exec cfg parsed lsr st = (d, st0)" by (metis surj_pair)
  show ?thesis
  proof (cases d)
    case (Inl e)
    then show ?thesis using assms(1) d by (simp add: actionBody_def Let_def)
  next
    case (Inr x)
    show ?thesis
    proof (cases x)
      case (Return resp)
      then have "r = parsed"
        using d Inr assms(1)
        by (auto simp: actionBody_def dispatchAction_def Let_def
            split: if_splits sum.splits option.splits prod.splits)
      then show ?thesis using assms(2) by (simp add: action_ok_truthy_type)
    next
      case (Executed toolResult)
      consider (ask) "tr_needsUserInput toolResult = Some True"
        | (ok) "tr_needsUserInput toolResult \<noteq> Some True" "tr_success toolResult"
        | (bad) "tr_needsUserInput toolResult \<noteq> Some True" "\<not> tr_success toolResult"
        by blast
      then show ?thesis
      proof cases
        case ask
        then have "r = needsInputResponse toolResult parsed"
          using d Inr Executed assms(1) by (simp add: actionBody_def Let_def)
        then show ?thesis by (simp add: needsInputResponse_def action_ok_null)
      next
        case ok
        then have "successResponse rt parsed ?t
            (or_else (get_prop ''payload'' (ar_action parsed)) (JObj [])) toolResult st0 = (Inr r, st1)"
          using d Inr Executed assms(1) by (simp add: actionBody_def Let_def)
        then show ?thesis using t by (rule successResponse_action)
      next
        case bad
        then have "r = failureResponse rt toolResult ?t"
          using d Inr Executed assms(1) by (simp add: actionBody_def Let_def)
        then show ?thesis by (simp add: failureResponse_def action_ok_null)
      qed
    qed
  qed
qed

lemma executeActionFromResponse_action:
  assumes "executeActionFromResponse rt exec cfg parsed lsr st = (r, st1)"
    and "truthy_opt (get_prop ''type'' (ar_action parsed))"
  shows "action_ok (ar_action r)"
proof -
  obtain b st0 where b: "actionBody rt exec cfg parsed lsr st = (b, st0)" by (metis surj_pair)
  show ?thesis
  proof (cases b)
    case (Inl e)
    then have "r = errorResponse parsed" using assms(1) b by (simp add: executeActionFromResponse_def)
    then show ?thesis by (simp add: errorResponse_def action_ok_null)
  next
    case (Inr x)
    then have "x = r" "st0 = st1" using assms(1) b by (simp_all add: executeActionFromResponse_def)
    then show ?thesis using actionBody_action [of rt exec cfg parsed lsr st r st1] b Inr assms(2)
      by simp
  qed
qed

lemma toolAction_ok: "action_ok (toolAction tool res)"
  by (simp add: toolAction_def action_ok_mk)

lemma actionOfResults_cases:
  "actionOfResults initial rs = initial \<or> (\<exists>tool res. actionOfResults initial rs = toolAction tool res)"
proof (induction rs arbitrary: initial)
  case Nil
  show ?case by (simp add: actionOfResults_def)
next
  case (Cons x rs)
  obtain tool res where x: "x = (tool, res)" by (cases x)
  have step: "actionOfResults initial (x # rs)
      = actionOfResults (if tr_success res then toolAction tool res else initial) rs"
    by (simp add: actionOfResults_def x)
  show ?case using Cons.IH [of "if tr_success res then toolAction tool res else initial"]
    unfolding step by (auto split: if_splits)
qed

lemma generateResponseFromToolResults_action:
  assumes "generateResponseFromToolResults rt results st = (Inr r, st1)"
    and "\<forall>x a. Inr x \<in> set (provider_script st) \<and> replyAction rt (lr_content x) = Some a \<longrightarrow> action_ok a"
  shows "action_ok (ar_action r)"
proof -
  obtain g st0 where g: "generate st = (g, st0)" by (metis surj_pair)
  obtain x where x: "g = Inr x"
    using assms(1) g by (cases g) (simp_all add: generateResponseFromToolResults_def)
  have inscript: "Inr x \<in> set (provider_script st)" using generate_Inr g x by blast
  obtain p where p: "parseLLMResponse rt (lr_content x) = Inr p"
    using assms(1) g x
    by (cases "parseLLMResponse rt (lr_content x)") (simp_all add: generateResponseFromToolResults_def)
  have act: "ar_action r = actionOfResults (or_else (Some (ar_action p)) null_action) results"
    using assms(1) g x p
    by (auto simp: generateResponseFromToolResults_def Let_def split: sum.splits if_splits)
  have init: "action_ok (or_else (Some (ar_action p)) null_action)"
  proof -
    have "action_ok (ar_action p)"
      using parse_action [OF p] assms(2) inscript by (auto simp: action_ok_null)
    then show ?thesis by (simp add: or_else_def action_ok_null)
  qed
  show ?thesis
    using actionOfResults_cases [of "or_else (Some (ar_action p)) null_action" results] init
    by (auto simp: act toolAction_ok)
qed

text \<open>
  Claim C9, as amended. A response of \<open>processMessage\<close> satisfies the invariant
  \<open>action.type == null\<close> implies \<open>action.payload == {}\<close> whenever every action that a JSON
  reply of the model carries in the turn satisfies it: the actions that the orchestrator
  builds itself (after a tool, after a failure, after a clarifying question, in the
  fallback of the parser) always do, and an action of the reply is passed on as it is.
\<close>

theorem processMessage_action_invariant:
  assumes run: "processMessage rt exec loaded lsr st = (Inr response, st')"
    and replies: "\<forall>x a. Inr x \<in> set (provider_script st) \<and> replyAction rt (lr_content x) = Some a
                   \<longrightarrow> action_ok a"
  shows "action_ok (ar_action response)"
proof -
  obtain cfg where cfg: "loaded = Some cfg"
    using run by (cases loaded) (simp_all add: processMessage_def)
  obtain g st1 where g: "generate st = (g, st1)" by (metis surj_pair)
  obtain x where x: "g = Inr x"
    using run cfg g by (cases g) (simp_all add: processMessage_def)
  note G = generate_Inr [OF g [unfolded x]]
  have rest: "\<forall>y a. Inr y \<in> set (provider_script st1) \<and> replyAction rt (lr_content y) = Some a
                   \<longrightarrow> action_ok a"
    using replies G by blast
  show ?thesis
  proof (cases "case lr_toolCalls x of None \<Rightarrow> False | Some cs \<Rightarrow> length cs > 0")
    case True
    obtain results w where rw: "runToolCalls exec (the (lr_toolCalls x)) (registry st1) = (results, w)"
      by (metis surj_pair)
    have "generateResponseFromToolResults rt results (st1\<lparr>registry := w\<rparr>) = (Inr response, st')"
      using run cfg g x True rw by (simp add: processMessage_def)
    moreover have "provider_script (st1\<lparr>registry := w\<rparr>) = provider_script st1" by simp
    ultimately show ?thesis
      using generateResponseFromToolResults_action [of rt results "st1\<lparr>registry := w\<rparr>" response st']
        rest by simp
  next
    case False
    obtain p where p: "parseLLMResponse rt (lr_content x) = Inr p"
      using run cfg g x False
      by (cases "parseLLMResponse rt (lr_content x)") (simp_all add: processMessage_def)
    show ?thesis
    proof (cases "truthy_opt (get_prop ''type'' (ar_action p))")
      case True
      obtain r st2 where e: "executeActionFromResponse rt exec cfg p lsr st1 = (r, st2)"
        by (metis surj_pair)
      have "r = response" using run cfg g x False p True e by (simp add: processMessage_def)
      then show ?thesis using executeActionFromResponse_action [OF e True] by simp
    next
      case nt: False
      have "p = response" using run cfg g x False p nt by (simp add: processMessage_def)
      moreover have "action_ok (ar_action p)"
        using parse_action [OF p] replies G by (auto simp: action_ok_null)
      ultimately show ?thesis by simp
    qed
  qed
qed

lemma inline_run: "fst (sample_turn [reply_text order_reply]) = Inr asked"
  by code_simp

lemma order_reply_action:
  "replyAction sample_rt order_reply
     = Some (JObj [(''type'', JStr ''get_order''), (''payload'', JObj [])])"
  by code_simp

theorem processMessage_action_invariant_witness:
  "fst (sample_turn [reply_text order_reply]) = Inr asked
   \<and> replyAction sample_rt order_reply
       = Some (JObj [(''type'', JStr ''get_order''), (''payload'', JObj [])])
   \<and> action_ok (JObj [(''type'', JStr ''get_order''), (''payload'', JObj [])])
   \<and> action_ok (ar_action asked)"
proof -
  obtain st' where run:
    "processMessage sample_rt (order_registry sample_ctx) (Some (agentConfig sample_ctx)) None
       (turn_with [reply_text order_reply]) = (Inr asked, st')"
    using inline_run unfolding sample_turn_def by (metis prod.collapse)
  have ok: "action_ok (JObj [(''type'', JStr ''get_order''), (''payload'', JObj [])])"
    by (simp add: action_ok_def type_is_null_def)
  have replies: "\<forall>x a. Inr x \<in> set (provider_script (turn_with [reply_text order_reply]))
                     \<and> replyAction sample_rt (lr_content x) = Some a \<longrightarrow> action_ok a"
    using order_reply_action ok by (auto simp: turn_with_def reply_text_def)
  from processMessage_action_invariant [OF run replies] inline_run order_reply_action ok
  show ?thesis by simp
qed

text \<open>
  The claim as it was stated fails on a reply whose action has the type \<open>null\<close> and a
  payload that is not empty: \<open>parseLLMResponse\<close> takes the action of the reply as it is,
  and \<open>processMessage\<close> returns the parsed response when the type is not truthy.
\<close>

theorem processMessage_reply_action_counterexample:
  "fst (sample_turn [reply_text bad_reply])
     = Inr \<lparr>ar_message = JStr ''Hola'', ar_audio_description = JStr ''Hola'',
            ar_action = JObj [(''type'', JNull), (''payload'', JObj [(''x'', JNum 1)])]\<rparr>
   \<and> type_is_null (JObj [(''type'', JNull), (''payload'', JObj [(''x'', JNum 1)])])
   \<and> \<not> action_ok (JObj [(''type'', JNull), (''payload'', JObj [(''x'', JNum 1)])])"
  by code_simp

lemma dispatchAction_calls:
  "dispatchAction rt exec cfg parsed lsr st = (r, st') \<Longrightarrow> provider_calls st' = provider_calls st"
  by (auto simp: dispatchAction_def Let_def split: if_splits sum.splits option.splits prod.splits)

text \<open>
  A turn whose reply carries tool calls makes two provider calls, whatever the tools
  return: \<open>generateResponseFromToolResults\<close> does not read \<open>needsUserInput\<close>.
\<close>

lemma tool_call_path_calls:
  assumes "generate st = (Inr llmResponse, st1)"
    and "lr_toolCalls llmResponse = Some cs" and "cs \<noteq> []"
  shows "provider_calls (snd (processMessage rt exec (Some cfg) lsr st)) = provider_calls st + 2"
proof -
  obtain results w where rs: "runToolCalls exec cs (registry st1) = (results, w)"
    by (metis surj_pair)
  have pm: "processMessage rt exec (Some cfg) lsr st
              = generateResponseFromToolResults rt results (st1\<lparr>registry := w\<rparr>)"
    using assms rs by (simp add: processMessage_def)
  have "provider_calls (snd (generateResponseFromToolResults rt results (st1\<lparr>registry := w\<rparr>)))
          = Suc (provider_calls (st1\<lparr>registry := w\<rparr>))"
    using generate_calls [of "st1\<lparr>registry := w\<rparr>"]
    by (cases "generate (st1\<lparr>registry := w\<rparr>)")
       (auto simp: generateResponseFromToolResults_def Let_def split: sum.splits)
  moreover have "provider_calls st1 = Suc (provider_calls st)"
    using generate_Inr [OF assms(1)] by simp
  ultimately show ?thesis using pm by simp
qed

text \<open>
  Claim C1, on the path of the inline action. When the reply of the model has no tool
  call, its action has a type, and the tool that the action runs returns
  \<open>needsUserInput = true\<close>, \<open>processMessage\<close> returns the clarifying response: its action is
  \<open>{type: null, payload: {}}\<close>, its message is the question of the tool when there is one,
  and the turn has made the one provider call that produced the reply.
\<close>

theorem inline_action_needs_user_input:
  assumes first: "generate st = (Inr llmResponse, st1)"
    and no_calls: "lr_toolCalls llmResponse = None \<or> lr_toolCalls llmResponse = Some []"
    and parsed: "parseLLMResponse rt (lr_content llmResponse) = Inr parsedResponse"
    and typed: "truthy_opt (get_prop ''type'' (ar_action parsedResponse))"
    and ran: "dispatchAction rt exec cfg parsedResponse lsr st1 = (Inr (Executed toolResult), st2)"
    and needs: "tr_needsUserInput toolResult = Some True"
  shows "processMessage rt exec (Some cfg) lsr st
           = (Inr (needsInputResponse toolResult parsedResponse), st2)
         \<and> provider_calls st2 = provider_calls st + 1
         \<and> ar_action (needsInputResponse toolResult parsedResponse) = null_action
         \<and> get_prop ''type'' null_action = Some JNull
         \<and> (\<forall>q. tr_question toolResult = Some q \<and> q \<noteq> []
                \<longrightarrow> ar_message (needsInputResponse toolResult parsedResponse) = JStr q)"
proof -
  have body: "actionBody rt exec cfg parsedResponse lsr st1
                = (Inr (needsInputResponse toolResult parsedResponse), st2)"
    using ran needs by (simp add: actionBody_def Let_def)
  have exe: "executeActionFromResponse rt exec cfg parsedResponse lsr st1
               = (needsInputResponse toolResult parsedResponse, st2)"
    using body by (simp add: executeActionFromResponse_def)
  have pm: "processMessage rt exec (Some cfg) lsr st
              = (Inr (needsInputResponse toolResult parsedResponse), st2)"
    using first no_calls parsed typed exe by (auto simp: processMessage_def)
  have calls: "provider_calls st2 = provider_calls st + 1"
    using dispatchAction_calls [OF ran] generate_Inr [OF first] by simp
  have act: "ar_action (needsInputResponse toolResult parsedResponse) = null_action"
    by (simp add: needsInputResponse_def)
  have ty: "get_prop ''type'' null_action = Some JNull"
    by (simp add: null_action_def)
  have msg: "\<forall>q. tr_question toolResult = Some q \<and> q \<noteq> []
                \<longrightarrow> ar_message (needsInputResponse toolResult parsedResponse) = JStr q"
    by (simp add: needsInputResponse_def truthy_str_def)
  from pm calls act ty msg show ?thesis by simp
qed

lemma inline_first:
  "generate (turn_with [reply_text order_reply]) = (Inr (reply_text order_reply), turn_after 1)"
  by (simp add: generate_def turn_with_def turn_after_def)

lemma inline_parsed:
  "parseLLMResponse sample_rt (lr_content (reply_text order_reply)) = Inr order_parsed"
  by code_simp

lemma order_registry_world: "snd (order_registry ctx toolName args w) = w"
  by (simp add: order_registry_def Let_def)

lemma inline_dispatch:
  "dispatchAction sample_rt (order_registry sample_ctx) (agentConfig sample_ctx) order_parsed None
     (turn_after 1)
   = (Inr (Executed (asks_user question_missing
                      ''Missing required information: orderNumber, orderId, email, or phone'')),
      turn_after 1)"
proof -
  have res: "fst (dispatchAction sample_rt (order_registry sample_ctx) (agentConfig sample_ctx)
                    order_parsed None (turn_after 1))
             = Inr (Executed (asks_user question_missing
                      ''Missing required information: orderNumber, orderId, email, or phone''))"
    by code_simp
  have st: "snd (dispatchAction sample_rt (order_registry sample_ctx) (agentConfig sample_ctx)
                   order_parsed None (turn_after 1))
            = turn_after 1"
    by (simp add: dispatchAction_def Let_def order_parsed_def split_beta order_registry_world
                  turn_after_def)
  from res st show ?thesis
    by (simp add: prod_eq_iff)
qed

lemma inline_asked:
  "needsInputResponse (asks_user question_missing
      ''Missing required information: orderNumber, orderId, email, or phone'') order_parsed = asked"
  by code_simp

theorem inline_action_needs_user_input_witness:
  "sample_turn [reply_text order_reply] = (Inr asked, turn_after 1)
   \<and> provider_calls (turn_after 1) = 1
   \<and> ar_action asked = null_action
   \<and> ar_message asked = JStr question_missing"
proof -
  have no_calls: "lr_toolCalls (reply_text order_reply) = None
                  \<or> lr_toolCalls (reply_text order_reply) = Some []"
    by (simp add: reply_text_def)
  have typed: "truthy_opt (get_prop ''type'' (ar_action order_parsed))"
    by (simp add: order_parsed_def truthy_opt_def)
  have needs: "tr_needsUserInput (asks_user question_missing
      ''Missing required information: orderNumber, orderId, email, or phone'' :: json ToolResult)
      = Some True"
    by (simp add: asks_user_def)
  note inst = inline_action_needs_user_input
                [OF inline_first no_calls inline_parsed typed inline_dispatch needs]
  from inst have run: "sample_turn [reply_text order_reply] = (Inr asked, turn_after 1)"
    by (simp add: sample_turn_def inline_asked)
  have calls: "provider_calls (turn_after 1) = 1"
    by (simp add: turn_after_def)
  from inst have act: "ar_action asked = null_action"
    by (simp add: inline_asked)
  have q: "tr_question (asks_user question_missing
      ''Missing required information: orderNumber, orderId, email, or phone'' :: json ToolResult)
      = Some question_missing"
    by (simp add: asks_user_def)
  have ne: "question_missing \<noteq> []"
    by (simp add: question_missing_def)
  from inst q ne have msg: "ar_message asked = JStr question_missing"
    by (simp add: inline_asked)
  from run calls act msg show ?thesis by simp
qed

text \<open>
  On the path of the tool calls the claim fails. The model calls \<open>get_order\<close> without
  arguments, the tool answers with \<open>needsUserInput = true\<close> and its question, and
  \<open>processMessage\<close> makes the second provider call all the same and returns the message of
  that call, not the question.
\<close>

theorem tool_call_needs_user_input_counterexample:
  "fst (order_registry sample_ctx ''get_order'' (JObj []) cart_world)
     = asks_user question_missing
         ''Missing required information: orderNumber, orderId, email, or phone''
   \<and> fst (sample_turn [reply_tool_call, reply_text narration])
       = Inr \<lparr>ar_message = JStr narration, ar_audio_description = JStr narration,
              ar_action = null_action\<rparr>
   \<and> provider_calls (snd (sample_turn [reply_tool_call, reply_text narration])) = 2
   \<and> narration \<noteq> question_missing"
  by code_simp

end
